theory Spec2Isabelle
  imports Complex_Main "HOL-Library.Sublist"
begin

section \<open>Text primitives of the Python runtime\<close>

text \<open>
  A Python \<open>str\<close> is a sequence of code points. Prompts, shape names and file names are
  modelled as \<open>string\<close>, each \<open>char\<close> standing for one code point below 256 (the
  Latin-1 range); on that range the functions below are exactly \<open>str.lower\<close>, the
  regular-expression classes \<open>\d\<close> and \<open>\s\<close> of a \<open>str\<close> pattern, and \<open>int\<close>
  on a run of decimal digits. Code points from 256 on are outside the model.
\<close>

definition lower_char :: "char \<Rightarrow> char" where
  "lower_char c =
     (let n = (of_char c :: nat)
      in if (65 \<le> n \<and> n \<le> 90) \<or> (192 \<le> n \<and> n \<le> 222 \<and> n \<noteq> 215)
         then char_of (n + 32) else c)"

definition lower :: "string \<Rightarrow> string" where
  "lower s = map lower_char s"

text \<open>
  \<open>str.capitalize\<close>: the first character in upper case, the rest in lower case. The
  source applies it to the words of the theme vocabulary only, which are ASCII; the
  three Latin-1 letters whose upper case lies beyond code point 255 are left as they are.
\<close>

definition upper_char :: "char \<Rightarrow> char" where
  "upper_char c =
     (let n = (of_char c :: nat)
      in if (97 \<le> n \<and> n \<le> 122) \<or> (224 \<le> n \<and> n \<le> 254 \<and> n \<noteq> 247)
         then char_of (n - 32) else c)"

definition capitalize :: "string \<Rightarrow> string" where
  "capitalize s = (case s of [] \<Rightarrow> [] | c # cs \<Rightarrow> upper_char c # map lower_char cs)"

definition is_digit :: "char \<Rightarrow> bool" where
  "is_digit c = (let n = (of_char c :: nat) in 48 \<le> n \<and> n \<le> 57)"

definition is_space :: "char \<Rightarrow> bool" where
  "is_space c =
     (let n = (of_char c :: nat)
      in (9 \<le> n \<and> n \<le> 13) \<or> (28 \<le> n \<and> n \<le> 32) \<or> n = 133 \<or> n = 160)"

text \<open>
  \<open>int(ds)\<close> on a string of decimal digits. The limit that recent interpreters put
  on the length of such a string (4300 digits unless configured otherwise), beyond which
  \<open>int\<close> raises, is not modelled.
\<close>

definition digit_val :: "char \<Rightarrow> int" where
  "digit_val c = int (of_char c) - 48"

definition int_of_digits :: "string \<Rightarrow> int" where
  "int_of_digits ds = foldl (\<lambda>a c. 10 * a + digit_val c) 0 ds"

text \<open>\<open>t in p\<close> on strings: \<open>t\<close> occurs in \<open>p\<close> as a contiguous substring.\<close>

fun str_in :: "string \<Rightarrow> string \<Rightarrow> bool" where
  "str_in t [] = (t = [])"
| "str_in t (c # cs) = (prefix t (c # cs) \<or> str_in t cs)"

section \<open>Values, errors and paths\<close>

text \<open>
  An exception is a value of type \<open>error\<close>; a call that may raise returns
  \<open>error + 'a\<close> with \<open>Inl\<close> for the exception. \<open>ExternalError\<close> stands for
  whatever a service or library outside the repository raises.
\<close>

datatype error =
    ImportError string
  | ConfigurationError string
  | TypeError
  | AttributeError
  | FileNotFoundError
  | ExternalError string

text \<open>
  What \<open>json.load\<close> and the tolerant parser return. A JSON object is the association
  list of a \<open>dict\<close> (one pair per key); a float is represented by a rational, which is
  all that truth testing needs.
\<close>

datatype json =
    JNull
  | JBool bool
  | JInt int
  | JFloat rat
  | JStr string
  | JArr "json list"
  | JObj "(string \<times> json) list"

text \<open>Python's truth value of an object, as \<open>not x\<close> and \<open>if x\<close> test it.\<close>

fun truthy :: "json \<Rightarrow> bool" where
  "truthy JNull = False"
| "truthy (JBool b) = b"
| "truthy (JInt n) = (n \<noteq> 0)"
| "truthy (JFloat r) = (r \<noteq> 0)"
| "truthy (JStr s) = (s \<noteq> [])"
| "truthy (JArr xs) = (xs \<noteq> [])"
| "truthy (JObj kvs) = (kvs \<noteq> [])"

text \<open>\<open>d.get(k, default)\<close>.\<close>

definition dict_get :: "(string \<times> json) list \<Rightarrow> string \<Rightarrow> json \<Rightarrow> json" where
  "dict_get kvs k dflt = (case map_of kvs k of Some v \<Rightarrow> v | None \<Rightarrow> dflt)"

text \<open>
  \<open>a or b\<close> where \<open>a\<close> is \<open>None\<close> or a value whose truth is given by \<open>t\<close>:
  the result is \<open>a\<close> when \<open>a\<close> is true and \<open>b\<close> otherwise.
\<close>

definition py_or :: "('a \<Rightarrow> bool) \<Rightarrow> 'a option \<Rightarrow> 'a option \<Rightarrow> 'a option" where
  "py_or t a b = (case a of None \<Rightarrow> b | Some x \<Rightarrow> if t x then Some x else b)"

text \<open>\<open>str(n)\<close> on integers.\<close>

fun str_of_nat :: "nat \<Rightarrow> string" where
  "str_of_nat n =
     (if n < 10 then [''0123456789'' ! n]
      else str_of_nat (n div 10) @ [''0123456789'' ! (n mod 10)])"

definition str_of_int :: "int \<Rightarrow> string" where
  "str_of_int i = (if i < 0 then CHR ''-'' # str_of_nat (nat (- i)) else str_of_nat (nat i))"

text \<open>
  \<open>os.path.basename\<close>, \<open>os.path.join\<close> of two components and
  \<open>os.path.splitext\<close>, as \<open>posixpath\<close> defines them.
\<close>

definition basename :: "string \<Rightarrow> string" where
  "basename p = rev (takeWhile (\<lambda>c. c \<noteq> CHR ''/'') (rev p))"

definition path_join :: "string \<Rightarrow> string \<Rightarrow> string" where
  "path_join a b =
     (if prefix ''/'' b then b
      else if a = [] \<or> last a = CHR ''/'' then a @ b
      else a @ ''/'' @ b)"

text \<open>
  \<open>splitext\<close> looks at the part after the last separator: leading dots belong to the
  name, and the extension starts at the last dot that follows a character other than a
  dot. \<open>split_ext\<close> works on that part, which is all the source passes (a basename).
\<close>

definition split_ext :: "string \<Rightarrow> string \<times> string" where
  "split_ext f =
     (let dots = takeWhile (\<lambda>c. c = CHR ''.'') f;
          body = dropWhile (\<lambda>c. c = CHR ''.'') f;
          ext = rev (takeWhile (\<lambda>c. c \<noteq> CHR ''.'') (rev body))
      in if CHR ''.'' \<in> set body
         then (dots @ take (length body - length ext - 1) body,
               drop (length body - length ext - 1) body)
         else (f, []))"

text \<open>\<open>s.replace("/", "_")\<close>.\<close>

definition flatten_name :: "string \<Rightarrow> string" where
  "flatten_name s = map (\<lambda>c. if c = CHR ''/'' then CHR ''_'' else c) s"

section \<open>Intent detection (generate_ppt.parse_user_intent)\<close>

text \<open>
  \<open>re.search(r"(\d+)\s+slides?", s)\<close> tries the pattern at every position of \<open>s\<close>
  from the left and stops at the first position where it matches. At one position the
  pattern takes a run of digits, then a run of white space, then the letters
  \<open>slide\<close>. Both runs are greedy, and giving characters back cannot help: what follows
  the digits has to be white space and what follows the white space has to be \<open>s\<close>, so
  a match takes each run whole. \<open>re_match_slides\<close> is the attempt at the head of the
  string and returns group 1 converted by \<open>int\<close>; the optional final \<open>s\<close> of the
  pattern does not change group 1.
\<close>

definition re_match_slides :: "string \<Rightarrow> int option" where
  "re_match_slides s =
     (let ds = takeWhile is_digit s;
          r1 = dropWhile is_digit s;
          ws = takeWhile is_space r1;
          r2 = dropWhile is_space r1
      in if ds \<noteq> [] \<and> ws \<noteq> [] \<and> prefix ''slide'' r2
         then Some (int_of_digits ds) else None)"

fun re_search_slides :: "string \<Rightarrow> int option" where
  "re_search_slides [] = None"
| "re_search_slides (c # cs) =
     (case re_match_slides (c # cs) of
        Some n \<Rightarrow> Some n
      | None \<Rightarrow> re_search_slides cs)"

definition theme_words :: "string list" where
  "theme_words =
     [''corporate'', ''modern'', ''minimal'', ''professional'',
      ''dark'', ''light'', ''colorful'', ''gradient'', ''flat'']"

text \<open>The \<open>for t in theme_words\<close> loop with its \<open>break\<close> at the first hit.\<close>

fun detect_theme :: "string list \<Rightarrow> string \<Rightarrow> string option" where
  "detect_theme [] p = None"
| "detect_theme (t # ts) p =
     (if str_in t p then Some (capitalize t) else detect_theme ts p)"

definition parse_user_intent :: "string \<Rightarrow> int option \<times> string option" where
  "parse_user_intent prompt =
     (re_search_slides (lower prompt), detect_theme theme_words (lower prompt))"


section \<open>The generation pipeline (generate_ppt.py)\<close>

subsection \<open>The world outside the module\<close>

text \<open>
  Everything the pipeline calls outside the repository's sources is a field of
  \<open>gen_env\<close>: the retrieval service, the files of the design cache, the serialiser, the
  chat and image services, the tolerant parser of the utilities module, the clock, the
  random source and the object store. A field returns \<open>Inl\<close> where the call raises.
  \<open>uuid4_hex n\<close> is \<open>uuid.uuid4().hex\<close> at the \<open>n\<close>-th draw of the process.
\<close>

record search_hit =
  hit_ppt_name :: "string option"
  hit_text :: "string option"

record gen_env =
  semantic_search :: "string \<Rightarrow> nat \<Rightarrow> string list option \<Rightarrow> error + search_hit list option"
  design_json_file :: "string \<Rightarrow> (error + json) option"
  json_dumps :: "json \<Rightarrow> string"
  py_str :: "json \<Rightarrow> string"
  chat_completion :: "string \<Rightarrow> string \<Rightarrow> error + string"
  safe_json_load :: "string \<Rightarrow> error + json"
  image_service :: "json \<Rightarrow> error + string"
  add_picture_error :: "string \<Rightarrow> error option"
  gettempdir :: string
  uuid4_hex :: "nat \<Rightarrow> string"
  save_error :: "string \<Rightarrow> error option"
  upload_error :: "string \<Rightarrow> error option"
  now_ts :: string

text \<open>
  A slide as \<open>generate_presentation\<close> collects it, a slide of the document that
  \<open>build_ppt\<close> assembles, and the generation log.
\<close>

record gen_slide =
  slide_title :: json
  slide_bullets :: json
  image_path :: "string option"

record doc_slide =
  ds_title :: "string option"
  ds_bullets :: "string list"
  ds_picture :: "string option"

record generation_log =
  log_timestamp :: string
  log_prompt :: string
  log_style :: string
  log_theme :: "string option"
  log_requested_num_slides :: "int option"
  references_used :: nat
  design_jsons_used :: nat
  slides_generated :: nat
  ppt_file :: string

text \<open>
  What a local file or an object of the output container holds: an assembled document,
  or the bytes of \<open>json.dumps(log, indent=2)\<close>, kept as the log they serialise.
\<close>

datatype artifact = Pptx "doc_slide list" | LogJson generation_log

record gen_world =
  uuid_draws :: nat
  local_files :: "string \<rightharpoonup> artifact"
  blobs :: "string \<rightharpoonup> artifact"

subsection \<open>Intent resolution (lines 181 to 183)\<close>

definition resolve_intent ::
  "string \<Rightarrow> int option \<Rightarrow> string option \<Rightarrow> int option \<times> string option" where
  "resolve_intent prompt requested_num_slides theme =
     (let (detected_slides, detected_theme) = parse_user_intent prompt
      in (py_or (\<lambda>n. n \<noteq> 0) requested_num_slides detected_slides,
          py_or (\<lambda>t. t \<noteq> []) theme detected_theme))"

subsection \<open>Retrieval and design context (lines 185 to 204)\<close>

text \<open>
  The loop over the hits. \<open>os.path.basename\<close> of a hit without a deck name raises, and
  nothing catches it; a cache file that does not exist or does not load is passed over.
\<close>

fun gather_context ::
  "gen_env \<Rightarrow> search_hit list \<Rightarrow> json list \<Rightarrow> string list \<Rightarrow> error + json list \<times> string list" where
  "gather_context env [] design_context reference_text = Inr (design_context, reference_text)"
| "gather_context env (r # refs) design_context reference_text =
     (let text_snip = take 500 (case hit_text r of Some t \<Rightarrow> t | None \<Rightarrow> []);
          reference_text' = (if text_snip \<noteq> [] then reference_text @ [text_snip]
                             else reference_text)
      in case hit_ppt_name r of
           None \<Rightarrow> Inl TypeError
         | Some ppt_name \<Rightarrow>
             (let json_path = path_join ''design_jsons'' (basename ppt_name @ ''.json'')
              in case design_json_file env json_path of
                   Some (Inr j) \<Rightarrow> gather_context env refs (design_context @ [j]) reference_text'
                 | _ \<Rightarrow> gather_context env refs design_context reference_text'))"

definition prepare ::
  "gen_env \<Rightarrow> string \<Rightarrow> int option \<Rightarrow> string option \<Rightarrow> string list option
     \<Rightarrow> error + int option \<times> string option \<times> json list \<times> string list" where
  "prepare env prompt requested_num_slides theme tag_filters =
     (let (num_slides, theme') = resolve_intent prompt requested_num_slides theme
      in case semantic_search env prompt 10 tag_filters of
           Inl e \<Rightarrow> Inl e
         | Inr found \<Rightarrow>
             (case gather_context env (case found of Some rs \<Rightarrow> rs | None \<Rightarrow> []) [] [] of
                Inl e \<Rightarrow> Inl e
              | Inr (design_context, reference_text) \<Rightarrow>
                  Inr (num_slides, theme', design_context, reference_text)))"

subsection \<open>Plan generation (call_llm_plan)\<close>

definition sys_prompt :: "gen_env \<Rightarrow> string option \<Rightarrow> json list \<Rightarrow> string list \<Rightarrow> string" where
  \<open>sys_prompt env theme design_context references_text =
     ''You are an expert presentation designer.\<newline>'' @
     ''Create a structured slide plan.\<newline>'' @
     ''Return strictly JSON: a list of slides:\<newline>'' @
     ''[ {"title": str, "bullets": [str], '' @
     ''"visual_required": bool, "visual_prompt": str } ]\<newline>\<newline>'' @
     ''Use the design JSONs for style cues and reference snippets for content.\<newline>'' @
     ''If both match well, enable visuals. Otherwise, decide independently.\<newline>'' @
     ''If slide count or theme is detected from user text, follow it.\<newline>'' @
     (case theme of
        Some t \<Rightarrow> if t \<noteq> [] then ''\<newline>Theme preference: '' @ t @ ''\<newline>'' else []
      | None \<Rightarrow> []) @
     ''\<newline>Design Context (truncated): '' @ take 4000 (json_dumps env (JArr design_context)) @
     ''\<newline>Reference Snippets: '' @
       take 2000 (json_dumps env (JArr (map JStr references_text))) @ ''\<newline>''\<close>

definition user_prompt :: "string \<Rightarrow> string \<Rightarrow> int option \<Rightarrow> string" where
  "user_prompt prompt style num_slides =
     ''Create a PowerPoint plan for: '' @ prompt @ ''. Style: '' @ style @ ''.'' @
     (case num_slides of
        Some n \<Rightarrow> if n \<noteq> 0 then '' Produce exactly '' @ str_of_int n @ '' slides.'' else []
      | None \<Rightarrow> [])"

definition fallback_plan :: json where
  "fallback_plan =
     JArr [JObj [(''title'', JStr ''Intro''),
                 (''bullets'', JArr [JStr ''Overview'']),
                 (''visual_required'', JBool False)]]"

text \<open>
  The body of the \<open>try\<close>: the chat call, the tolerant parse of its text, the test
  \<open>not plan\<close>. The \<open>except\<close> clause turns every exception of the body into the
  fallback plan.
\<close>

definition call_llm_plan ::
  "gen_env \<Rightarrow> string \<Rightarrow> string \<Rightarrow> json list \<Rightarrow> string list \<Rightarrow> int option \<Rightarrow> string option
     \<Rightarrow> error + json" where
  "call_llm_plan env prompt style design_context references_text num_slides theme =
     (let sys = sys_prompt env theme design_context references_text;
          usr = user_prompt prompt style num_slides
      in case chat_completion env sys usr of
           Inl e \<Rightarrow> Inr fallback_plan
         | Inr raw \<Rightarrow>
             (case safe_json_load env raw of
                Inl e \<Rightarrow> Inr fallback_plan
              | Inr plan \<Rightarrow> if \<not> truthy plan then Inr fallback_plan else Inr plan))"

text \<open>
  The plan-generation step fails on a request when the chat call raises, or the parse
  raises, or the parse returns a value that is not true.
\<close>

definition plan_step_fails :: "gen_env \<Rightarrow> string \<Rightarrow> string \<Rightarrow> bool" where
  "plan_step_fails env sys usr =
     (case chat_completion env sys usr of
        Inl e \<Rightarrow> True
      | Inr raw \<Rightarrow> (case safe_json_load env raw of Inl e \<Rightarrow> True | Inr plan \<Rightarrow> \<not> truthy plan))"

subsection \<open>Visuals and slides (lines 109 to 126 and 217 to 229)\<close>

definition generate_visual_image :: "gen_env \<Rightarrow> json \<Rightarrow> string option" where
  "generate_visual_image env prompt =
     (case image_service env prompt of Inl e \<Rightarrow> None | Inr path \<Rightarrow> Some path)"

text \<open>\<open>f"{x}"\<close>: a string as it is, any other value through \<open>str\<close>.\<close>

definition fstr :: "gen_env \<Rightarrow> json \<Rightarrow> string" where
  "fstr env v = (case v of JStr s \<Rightarrow> s | _ \<Rightarrow> py_str env v)"

definition make_slide :: "gen_env \<Rightarrow> (string \<times> json) list \<Rightarrow> gen_slide" where
  "make_slide env sp =
     (let title = dict_get sp ''title'' (JStr ''Untitled'');
          bullets = dict_get sp ''bullets'' (JArr [])
      in \<lparr> slide_title = title,
           slide_bullets = bullets,
           image_path =
             (if truthy (dict_get sp ''visual_required'' JNull)
              then generate_visual_image env
                     (dict_get sp ''visual_prompt''
                        (JStr (''Professional visual for '' @ fstr env title)))
              else None) \<rparr>)"

text \<open>
  \<open>for sp in plan\<close>: a list yields its elements, and \<open>sp.get\<close> raises on an element
  that is not a dict; a dict yields its keys and a string its characters, on which
  \<open>sp.get\<close> raises; the other values are not iterable.
\<close>

fun slides_of_entries :: "gen_env \<Rightarrow> json list \<Rightarrow> error + gen_slide list" where
  "slides_of_entries env [] = Inr []"
| "slides_of_entries env (JObj sp # rest) =
     (case slides_of_entries env rest of
        Inl e \<Rightarrow> Inl e
      | Inr slides \<Rightarrow> Inr (make_slide env sp # slides))"
| "slides_of_entries env (_ # rest) = Inl AttributeError"

fun slides_of_plan :: "gen_env \<Rightarrow> json \<Rightarrow> error + gen_slide list" where
  "slides_of_plan env (JArr entries) = slides_of_entries env entries"
| "slides_of_plan env (JObj kvs) = (if kvs = [] then Inr [] else Inl AttributeError)"
| "slides_of_plan env (JStr s) = (if s = [] then Inr [] else Inl AttributeError)"
| "slides_of_plan env _ = Inl TypeError"

subsection \<open>Document construction (build_ppt)\<close>

text \<open>
  Each of the three steps on a slide is wrapped in its own \<open>try\<close>. The title is set
  when it is a string. For the body, \<open>tf.clear()\<close> removes every paragraph of the
  text frame but one, which it leaves empty; then the bullets are iterated, and for each
  one a paragraph is appended after those already there and then given its text, so a
  bullet that is not a string leaves one more empty paragraph and ends the loop. A
  string is iterated by characters and a dict by keys; iterating any other value
  raises, and the body stays as \<open>tf.clear()\<close> left it. \<open>ds_bullets\<close> are the
  paragraphs of the body in their order.
\<close>

definition cleared_text_frame :: "string list" where
  "cleared_text_frame = [[]]"

fun add_paragraphs :: "string list \<Rightarrow> json list \<Rightarrow> string list" where
  "add_paragraphs tf [] = tf"
| "add_paragraphs tf (JStr b # bs) = add_paragraphs (tf @ [b]) bs"
| "add_paragraphs tf (_ # bs) = tf @ [[]]"

definition render_slide :: "gen_env \<Rightarrow> gen_slide \<Rightarrow> doc_slide" where
  "render_slide env s =
     \<lparr> ds_title = (case slide_title s of JStr t \<Rightarrow> Some t | _ \<Rightarrow> None),
       ds_bullets =
         (case slide_bullets s of
            JArr bs \<Rightarrow> add_paragraphs cleared_text_frame bs
          | JStr t \<Rightarrow> add_paragraphs cleared_text_frame (map (\<lambda>c. JStr [c]) t)
          | JObj kvs \<Rightarrow> add_paragraphs cleared_text_frame (map (\<lambda>kv. JStr (fst kv)) kvs)
          | _ \<Rightarrow> cleared_text_frame),
       ds_picture =
         (case image_path s of
            None \<Rightarrow> None
          | Some p \<Rightarrow> if p \<noteq> [] \<and> add_picture_error env p = None then Some p else None) \<rparr>"

definition local_name :: "gen_env \<Rightarrow> nat \<Rightarrow> string" where
  "local_name env k = ''generated_presentation_'' @ take 8 (uuid4_hex env k) @ ''.pptx''"

definition build_ppt :: "gen_env \<Rightarrow> gen_world \<Rightarrow> gen_slide list \<Rightarrow> error + string \<times> gen_world" where
  "build_ppt env w slides =
     (let prs = map (render_slide env) slides;
          out = path_join (gettempdir env) (local_name env (uuid_draws w));
          w1 = w\<lparr>uuid_draws := Suc (uuid_draws w)\<rparr>
      in case save_error env out of
           Some e \<Rightarrow> Inl e
         | None \<Rightarrow> Inr (out, w1\<lparr>local_files := (local_files w1)(out \<mapsto> Pptx prs)\<rparr>))"

subsection \<open>Publication (azure_blob_utils.py)\<close>

text \<open>
  Both uploads overwrite the object of that name; an error of the store is not caught.
  \<open>upload_ppt_to_blob\<close> reads the local file it is given.
\<close>

definition upload_ppt_to_blob :: "gen_env \<Rightarrow> gen_world \<Rightarrow> string \<Rightarrow> string \<Rightarrow> error + gen_world" where
  "upload_ppt_to_blob env w file_path file_name =
     (case local_files w file_path of
        None \<Rightarrow> Inl FileNotFoundError
      | Some data \<Rightarrow>
          (case upload_error env file_name of
             Some e \<Rightarrow> Inl e
           | None \<Rightarrow> Inr (w\<lparr>blobs := (blobs w)(file_name \<mapsto> data)\<rparr>)))"

definition upload_json_to_blob :: "gen_env \<Rightarrow> gen_world \<Rightarrow> artifact \<Rightarrow> string \<Rightarrow> error + gen_world" where
  "upload_json_to_blob env w json_bytes blob_name =
     (case upload_error env blob_name of
        Some e \<Rightarrow> Inl e
      | None \<Rightarrow> Inr (w\<lparr>blobs := (blobs w)(blob_name \<mapsto> json_bytes)\<rparr>))"

definition upload_name :: "gen_env \<Rightarrow> nat \<Rightarrow> string" where
  "upload_name env k = ''generated_'' @ take 8 (uuid4_hex env k) @ ''.pptx''"

text \<open>The digits of \<open>uuid.uuid4().hex\<close>.\<close>

definition hex_digits :: "char set" where
  "hex_digits = set ''0123456789abcdef''"

subsection \<open>The pipeline (generate_presentation)\<close>

text \<open>Lines 217 to 254: from the plan to the returned pair.\<close>

definition finish ::
  "gen_env \<Rightarrow> gen_world \<Rightarrow> string \<Rightarrow> string \<Rightarrow> int option \<Rightarrow> string option
     \<Rightarrow> json list \<Rightarrow> string list \<Rightarrow> json
     \<Rightarrow> error + (string \<times> generation_log) \<times> gen_world" where
  "finish env w prompt style requested_num_slides theme design_context reference_text plan =
     (case slides_of_plan env plan of
        Inl e \<Rightarrow> Inl e
      | Inr slides \<Rightarrow>
          (case build_ppt env w slides of
             Inl e \<Rightarrow> Inl e
           | Inr (out_path, w1) \<Rightarrow>
               (let fname = upload_name env (uuid_draws w1);
                    w2 = w1\<lparr>uuid_draws := Suc (uuid_draws w1)\<rparr>
                in case upload_ppt_to_blob env w2 out_path fname of
                     Inl e \<Rightarrow> Inl e
                   | Inr w3 \<Rightarrow>
                       (let log = \<lparr> log_timestamp = now_ts env,
                                    log_prompt = prompt,
                                    log_style = style,
                                    log_theme = theme,
                                    log_requested_num_slides = requested_num_slides,
                                    references_used = length reference_text,
                                    design_jsons_used = length design_context,
                                    slides_generated = length slides,
                                    ppt_file = fname \<rparr>
                        in case upload_json_to_blob env w3 (LogJson log)
                                  (''logs/'' @ fname @ ''.json'') of
                             Inl e \<Rightarrow> Inl e
                           | Inr w4 \<Rightarrow> Inr ((out_path, log), w4)))))"

definition generate_presentation ::
  "gen_env \<Rightarrow> gen_world \<Rightarrow> string \<Rightarrow> string \<Rightarrow> int option \<Rightarrow> string option
     \<Rightarrow> string list option \<Rightarrow> error + (string \<times> generation_log) \<times> gen_world" where
  "generate_presentation env w prompt style requested_num_slides theme tag_filters =
     (case prepare env prompt requested_num_slides theme tag_filters of
        Inl e \<Rightarrow> Inl e
      | Inr (num_slides, theme', design_context, reference_text) \<Rightarrow>
          (case call_llm_plan env prompt style design_context reference_text
                  num_slides theme' of
             Inl e \<Rightarrow> Inl e
           | Inr plan \<Rightarrow>
               finish env w prompt style num_slides theme' design_context
                 reference_text plan))"

section \<open>The front end (app.py)\<close>

text \<open>
  The labels of the phase selector, and the submit handler up to the call of the
  pipeline: the tag filter is empty for \<open>Any\<close> and holds the label otherwise, and the
  label is passed as the style. What the handler displays afterwards changes nothing
  of the call.
\<close>

definition phases :: "string list" where
  "phases = [''Any'', ''Plan'', ''Design'', ''Build'', ''Test'', ''Support'']"

definition submit ::
  "gen_env \<Rightarrow> gen_world \<Rightarrow> string \<Rightarrow> string \<Rightarrow> error + (string \<times> generation_log) \<times> gen_world" where
  "submit env w prompt phase =
     (let tags = (if phase \<noteq> [] \<and> phase \<noteq> ''Any'' then [phase] else [])
      in generate_presentation env w prompt phase None None (Some tags))"

section \<open>Design extraction (design_extractor.py)\<close>

subsection \<open>What the presentation library shows of a deck\<close>

text \<open>
  A shape is what the extractor reads from it. \<open>shape_type\<close> is read outside the
  \<open>try\<close> of the loop, so it carries its own possible exception; the other reads are
  inside. A guarded read (\<open>hasattr(...) and ... and ...\<close>) is a \<open>probe\<close>: the guard
  is false, or evaluating it raises, or it holds and the value is there. \<open>run_fonts\<close>
  are the font names that the scan of the text frame appends before it ends.
\<close>

datatype shape_type = PICTURE | TABLE | CHART | AUTO_SHAPE | OTHER_TYPE

datatype 'a probe = Absent | Raises error | Present 'a

record shape =
  shape_type :: "error + shape_type"
  shape_name :: string
  chart_type :: "error + string"
  auto_shape_type :: "error + string"
  fill_rgb :: "string probe"
  line_rgb :: "string probe"
  run_fonts :: "string list"

record slide =
  layout_name :: "string probe"
  background_rgb :: "string probe"
  slide_shapes :: "shape list"

text \<open>
  The two lists that the source deduplicates through \<open>list(set(...))\<close> are sets: the
  order of the resulting list is not determined by the source.
\<close>

record slide_data =
  layout :: "string option"
  background_color :: "string option"
  images :: "string list"
  shapes :: "string list"
  charts :: "string list"
  tables :: "string list"
  icons :: "string list"
  text_fonts :: "string set"
  accent_colors :: "string set"

subsection \<open>extract_slide_elements\<close>

definition hex_color :: "string \<Rightarrow> string" where
  "hex_color rgb = CHR ''#'' # rgb"

text \<open>The \<open>if\<close>/\<open>elif\<close> chain of lines 95 to 107.\<close>

definition classify :: "shape_type \<Rightarrow> shape \<Rightarrow> slide_data \<Rightarrow> error + slide_data" where
  "classify stype sh d =
     (case stype of
        PICTURE \<Rightarrow> Inr (d\<lparr>images := images d @ [shape_name sh]\<rparr>)
      | TABLE \<Rightarrow> Inr (d\<lparr>tables := tables d @ [shape_name sh]\<rparr>)
      | CHART \<Rightarrow>
          Inr (d\<lparr>charts := charts d @
                 [case chart_type sh of Inr t \<Rightarrow> t | Inl e \<Rightarrow> ''Chart'']\<rparr>)
      | AUTO_SHAPE \<Rightarrow>
          (case auto_shape_type sh of
             Inl e \<Rightarrow> Inl e
           | Inr t \<Rightarrow> Inr (d\<lparr>shapes := shapes d @ [t]\<rparr>))
      | OTHER_TYPE \<Rightarrow>
          Inr (if str_in ''icon'' (lower (shape_name sh))
               then d\<lparr>icons := icons d @ [shape_name sh]\<rparr> else d))"

definition add_accent :: "string probe \<Rightarrow> slide_data \<Rightarrow> error + slide_data" where
  "add_accent p d =
     (case p of
        Absent \<Rightarrow> Inr d
      | Raises e \<Rightarrow> Inl e
      | Present rgb \<Rightarrow> Inr (d\<lparr>accent_colors := insert (hex_color rgb) (accent_colors d)\<rparr>))"

text \<open>
  The body of the \<open>try\<close> for one shape. An exception ends the work on the shape and
  keeps what was appended before it.
\<close>

definition shape_step :: "shape_type \<Rightarrow> shape \<Rightarrow> slide_data \<Rightarrow> slide_data" where
  "shape_step stype sh d =
     (case classify stype sh d of
        Inl e \<Rightarrow> d
      | Inr d1 \<Rightarrow>
          (case add_accent (fill_rgb sh) d1 of
             Inl e \<Rightarrow> d1
           | Inr d2 \<Rightarrow>
               (case add_accent (line_rgb sh) d2 of
                  Inl e \<Rightarrow> d2
                | Inr d3 \<Rightarrow> d3\<lparr>text_fonts := text_fonts d3 \<union> set (run_fonts sh)\<rparr>)))"

fun scan_shapes :: "shape list \<Rightarrow> slide_data \<Rightarrow> error + slide_data" where
  "scan_shapes [] d = Inr d"
| "scan_shapes (sh # rest) d =
     (case shape_type sh of
        Inl e \<Rightarrow> Inl e
      | Inr stype \<Rightarrow> scan_shapes rest (shape_step stype sh d))"

definition extract_slide_elements :: "slide \<Rightarrow> error + slide_data" where
  "extract_slide_elements sl =
     scan_shapes (slide_shapes sl)
       \<lparr> layout = (case layout_name sl of Present n \<Rightarrow> Some n | _ \<Rightarrow> None),
         background_color =
           (case background_rgb sl of Present rgb \<Rightarrow> Some (hex_color rgb) | _ \<Rightarrow> None),
         images = [], shapes = [], charts = [], tables = [], icons = [],
         text_fonts = {}, accent_colors = {} \<rparr>"

text \<open>
  For the statements about the buckets: what a chart and an auto-shape contribute, and
  the shapes of one type. \<open>is_icon_shape\<close> is the test that the last \<open>elif\<close> of
  the chain amounts to.
\<close>

definition chart_label :: "shape \<Rightarrow> string" where
  "chart_label sh = (case chart_type sh of Inr t \<Rightarrow> t | Inl e \<Rightarrow> ''Chart'')"

definition auto_shape_label :: "shape \<Rightarrow> string list" where
  "auto_shape_label sh = (case auto_shape_type sh of Inr t \<Rightarrow> [t] | Inl e \<Rightarrow> [])"

definition has_type :: "shape_type \<Rightarrow> shape \<Rightarrow> bool" where
  "has_type st sh \<longleftrightarrow> shape_type sh = Inr st"

definition is_icon_shape :: "shape \<Rightarrow> bool" where
  "is_icon_shape sh \<longleftrightarrow>
     shape_type sh = Inr OTHER_TYPE \<and> sublist ''icon'' (lower (shape_name sh))"

subsection \<open>extract_design_elements and process_blob\<close>

text \<open>
  Of a parsed deck: the colours that \<open>extract_theme_colors\<close> gathers and the fonts and
  layout names that \<open>extract_fonts_and_layouts\<close> gathers (both swallow every
  exception and return what they have), and the slides.
\<close>

record presentation =
  theme_rgbs :: "string list"
  font_names :: "string list"
  slide_layout_names :: "string list"
  pres_slides :: "slide list"

record slide_record =
  sr_index :: nat
  sr_slide_number :: nat
  sr_data :: slide_data

record design_data =
  dd_ppt_name :: string
  extracted_on :: string
  theme_colors :: "string set"
  font_families :: "string set"
  slide_layouts :: "string set"
  dd_slides :: "slide_record list"

datatype dx_file = RawBytes string | DesignJson design_data

record dx_env =
  dx_download_blob :: "string \<Rightarrow> error + string"
  dx_parse :: "string \<Rightarrow> error + presentation"
  dx_gettempdir :: string
  dx_now_ts :: string

text \<open>
  The local files and the list of the blobs whose download was started. A path exists
  when it has a file.
\<close>

record dx_world =
  dx_files :: "string \<rightharpoonup> dx_file"
  dx_downloads :: "string list"

definition OUTPUT_DIR :: string where
  "OUTPUT_DIR = ''design_jsons''"

definition cache_path :: "string \<Rightarrow> string" where
  "cache_path ppt_name = path_join OUTPUT_DIR (basename ppt_name @ ''.json'')"

definition ppt_already_processed :: "dx_world \<Rightarrow> string \<Rightarrow> bool" where
  "ppt_already_processed w ppt_name = (dx_files w (cache_path ppt_name) \<noteq> None)"

fun enumerate_slides :: "nat \<Rightarrow> slide list \<Rightarrow> error + slide_record list" where
  "enumerate_slides i [] = Inr []"
| "enumerate_slides i (sl # rest) =
     (case extract_slide_elements sl of
        Inl e \<Rightarrow> Inl e
      | Inr d \<Rightarrow>
          (case enumerate_slides (Suc i) rest of
             Inl e \<Rightarrow> Inl e
           | Inr rs \<Rightarrow> Inr (\<lparr>sr_index = i, sr_slide_number = i + 1, sr_data = d\<rparr> # rs)))"

definition extract_design_elements :: "dx_env \<Rightarrow> dx_world \<Rightarrow> string \<Rightarrow> error + design_data" where
  "extract_design_elements env w local_path =
     (case dx_files w local_path of
        Some (RawBytes bytes) \<Rightarrow>
          (case dx_parse env bytes of
             Inl e \<Rightarrow> Inl e
           | Inr prs \<Rightarrow>
               (case enumerate_slides 0 (pres_slides prs) of
                  Inl e \<Rightarrow> Inl e
                | Inr rs \<Rightarrow>
                    Inr \<lparr> dd_ppt_name = basename local_path,
                          extracted_on = dx_now_ts env,
                          theme_colors = set (map hex_color (theme_rgbs prs)),
                          font_families = set (font_names prs),
                          slide_layouts = set (slide_layout_names prs),
                          dd_slides = rs \<rparr>))
      | _ \<Rightarrow> Inl (ExternalError ''not a presentation''))"

text \<open>
  \<open>process_blob\<close> of the extractor. Opening the temporary file for writing creates it
  before the download starts; a failed download leaves it behind and ends the run for
  the deck, and so does a failed extraction.
\<close>

definition design_process_blob :: "dx_env \<Rightarrow> dx_world \<Rightarrow> string \<Rightarrow> dx_world" where
  "design_process_blob env w blob_name =
     (let json_path = cache_path blob_name
      in if ppt_already_processed w blob_name then w
         else
           (let tmp_path = path_join (dx_gettempdir env) (flatten_name blob_name);
                w1 = w\<lparr> dx_files := (dx_files w)(tmp_path \<mapsto> RawBytes []),
                        dx_downloads := dx_downloads w @ [blob_name] \<rparr>
            in case dx_download_blob env blob_name of
                 Inl e \<Rightarrow> w1
               | Inr bytes \<Rightarrow>
                   (let w2 = w1\<lparr>dx_files := (dx_files w1)(tmp_path \<mapsto> RawBytes bytes)\<rparr>
                    in case extract_design_elements env w2 tmp_path of
                         Inl e \<Rightarrow> w2
                       | Inr design_data \<Rightarrow>
                           w2\<lparr>dx_files := (dx_files w2)(json_path \<mapsto> DesignJson design_data)\<rparr>)))"

section \<open>Slide ingestion (ingestion_chroma.py)\<close>

subsection \<open>Loading the module\<close>

text \<open>
  The names that design_extractor.py binds at its top level, in the order of the file,
  after the attributes every module has. \<open>from m import n\<close> raises \<open>ImportError\<close>
  when \<open>n\<close> is not an attribute of the loaded module \<open>m\<close> (which is a plain module,
  with no submodules).
\<close>

definition design_extractor_names :: "string list" where
  "design_extractor_names =
     [''__name__'', ''__doc__'', ''__package__'', ''__loader__'', ''__spec__'',
      ''__file__'', ''__cached__'', ''__builtins__'',
      ''os'', ''json'', ''tempfile'', ''Presentation'', ''MSO_SHAPE_TYPE'',
      ''BlobServiceClient'', ''get_env'', ''logger'', ''now_ts'',
      ''BLOB_CONN'', ''BLOB_CONTAINER'', ''blob_service'', ''container_client'',
      ''OUTPUT_DIR'', ''ppt_already_processed'', ''extract_theme_colors'',
      ''extract_fonts_and_layouts'', ''extract_slide_elements'',
      ''extract_design_elements'', ''process_blob'', ''main'']"

definition import_from :: "string list \<Rightarrow> string \<Rightarrow> error + unit" where
  "import_from names n = (if n \<in> set names then Inr () else Inl (ImportError n))"

text \<open>
  What the run decides: whether the imports of lines 1 to 8 succeed, whether the body
  of design_extractor.py runs to its end when line 9 first imports it (it reads a
  required setting and builds a storage client), and whether the rest of the ingestion
  module (lines 11 to 31) runs.
\<close>

record load_env =
  imports_before :: "error option"
  design_extractor_body :: "error option"
  module_rest :: "error option"

definition load_ingestion_chroma :: "load_env \<Rightarrow> error + unit" where
  "load_ingestion_chroma env =
     (case imports_before env of
        Some e \<Rightarrow> Inl e
      | None \<Rightarrow>
          (case design_extractor_body env of
             Some e \<Rightarrow> Inl e
           | None \<Rightarrow>
               (case import_from design_extractor_names ''extract_design_json'' of
                  Inl e \<Rightarrow> Inl e
                | Inr u \<Rightarrow>
                    (case module_rest env of Some e \<Rightarrow> Inl e | None \<Rightarrow> Inr ()))))"

subsection \<open>extract_slides\<close>

text \<open>\<open>str.strip\<close> and \<open>"\n".join\<close>.\<close>

definition strip :: "string \<Rightarrow> string" where
  "strip s = rev (dropWhile is_space (rev (dropWhile is_space s)))"

fun join_lines :: "string list \<Rightarrow> string" where
  "join_lines [] = []"
| "join_lines [t] = t"
| "join_lines (t # ts) = t @ ''\<newline>'' @ join_lines ts"

record ing_slide =
  sl_index :: nat
  sl_text :: string

text \<open>
  A parsed deck is, per slide, the list of its shapes, each with its text when it has
  one (\<open>hasattr(shape, "text")\<close>).
\<close>

definition slide_text :: "string option list \<Rightarrow> string" where
  "slide_text shape_texts =
     join_lines (filter (\<lambda>t. t \<noteq> [])
       (map strip (concat (map (\<lambda>x. case x of Some t \<Rightarrow> [t] | None \<Rightarrow> []) shape_texts))))"

fun enumerate_texts :: "nat \<Rightarrow> string option list list \<Rightarrow> ing_slide list" where
  "enumerate_texts i [] = []"
| "enumerate_texts i (s # rest) =
     \<lparr>sl_index = i, sl_text = slide_text s\<rparr> # enumerate_texts (Suc i) rest"

subsection \<open>process_blob\<close>

type_synonym vector = "rat list"

record slide_meta =
  meta_ppt_name :: string
  meta_slide_id :: string
  meta_slide_index :: nat
  meta_title :: string

record add_call =
  documents :: "string list"
  embeddings :: "vector list"
  metadatas :: "slide_meta list"
  ids :: "string list"

text \<open>
  \<open>uuid4_str n\<close> is \<open>str(uuid.uuid4())\<close> at the \<open>n\<close>-th draw. The vector collection
  is the list of the \<open>collection.add\<close> calls that succeeded, oldest first; a call that
  raises is taken to insert nothing.
\<close>

record ing_env =
  ing_download_blob :: "string \<Rightarrow> error + string"
  ing_parse :: "string \<Rightarrow> error + string option list list"
  embeddings_create :: "string list \<Rightarrow> error + vector list"
  add_error :: "add_call \<Rightarrow> error option"
  uuid4_str :: "nat \<Rightarrow> string"
  ing_gettempdir :: string

record ing_world =
  ing_files :: "string \<rightharpoonup> string"
  ing_uuid_draws :: nat
  collection :: "add_call list"

definition azure_embed_func :: "ing_env \<Rightarrow> string list \<Rightarrow> vector list" where
  "azure_embed_func env texts =
     (case embeddings_create env texts of Inl e \<Rightarrow> [] | Inr vs \<Rightarrow> vs)"

definition extract_slides :: "ing_env \<Rightarrow> string \<Rightarrow> error + ing_slide list" where
  "extract_slides env bytes =
     (case ing_parse env bytes of Inl e \<Rightarrow> Inl e | Inr prs \<Rightarrow> Inr (enumerate_texts 0 prs))"

definition slide_meta_of :: "string \<Rightarrow> string \<Rightarrow> ing_slide \<Rightarrow> slide_meta" where
  "slide_meta_of blob_name ppt_base s =
     \<lparr> meta_ppt_name = blob_name,
       meta_slide_id = ppt_base @ ''_Slide_'' @ str_of_nat (sl_index s),
       meta_slide_index = sl_index s,
       meta_title = takeWhile (\<lambda>c. c \<noteq> CHR ''\<newline>'') (sl_text s) \<rparr>"

text \<open>
  \<open>process_blob\<close> of the ingestion. The result is the exception that leaves the
  function, if any, and the world as the function leaves it.
\<close>

definition ingestion_process_blob ::
  "ing_env \<Rightarrow> ing_world \<Rightarrow> string \<Rightarrow> error option \<times> ing_world" where
  "ingestion_process_blob env w blob_name =
     (let tmp = path_join (ing_gettempdir env) (flatten_name blob_name);
          w0 = w\<lparr>ing_files := (ing_files w)(tmp \<mapsto> [])\<rparr>
      in case ing_download_blob env blob_name of
           Inl e \<Rightarrow> (Some e, w0)
         | Inr bytes \<Rightarrow>
             (let w1 = w\<lparr>ing_files := (ing_files w)(tmp \<mapsto> bytes)\<rparr>
              in case extract_slides env bytes of
                   Inl e \<Rightarrow> (Some e, w1)
                 | Inr slides \<Rightarrow>
                     if slides = [] then (None, w1)
                     else
                       (let ppt_base = fst (split_ext (basename blob_name));
                            k = ing_uuid_draws w1;
                            new_ids = map (uuid4_str env) [k ..< k + length slides];
                            docs = map sl_text slides;
                            metas = map (slide_meta_of blob_name ppt_base) slides;
                            alltexts = map sl_text slides;
                            w2 = w1\<lparr>ing_uuid_draws := k + length slides\<rparr>;
                            vectors = azure_embed_func env alltexts
                        in if vectors = [] then (None, w2)
                           else
                             (let call = \<lparr> documents = docs, embeddings = vectors,
                                           metadatas = metas, ids = new_ids \<rparr>
                              in case add_error env call of
                                   Some e \<Rightarrow> (Some e, w2)
                                 | None \<Rightarrow>
                                     (None, w2\<lparr>collection := collection w2 @ [call]\<rparr>)))))"

text \<open>The arguments of the \<open>collection.add\<close> call for a list of slides.\<close>

definition slide_entries :: "ing_env \<Rightarrow> ing_world \<Rightarrow> string \<Rightarrow> ing_slide list \<Rightarrow> vector list \<Rightarrow> add_call" where
  "slide_entries env w blob_name slides vectors =
     \<lparr> documents = map sl_text slides,
       embeddings = vectors,
       metadatas = map (slide_meta_of blob_name (fst (split_ext (basename blob_name)))) slides,
       ids = map (uuid4_str env) [ing_uuid_draws w ..< ing_uuid_draws w + length slides] \<rparr>"

section \<open>Concrete environments\<close>

text \<open>
  Inputs on which the theorems below are evaluated. In \<open>stub_env\<close> the search finds
  nothing, the chat model answers in prose, which the tolerant parser turns into
  \<open>None\<close>, and saving and uploading succeed. \<open>broken_upload_env\<close> differs in that
  the object store refuses every upload.
\<close>

definition stub_env :: gen_env where
  "stub_env =
     \<lparr> semantic_search = (\<lambda>prompt top_k tags. Inr None),
       design_json_file = (\<lambda>path. None),
       json_dumps = (\<lambda>v. ''[]''),
       py_str = (\<lambda>v. []),
       chat_completion = (\<lambda>sys usr. Inr ''Here is an outline of your talk.''),
       safe_json_load = (\<lambda>raw. Inr JNull),
       image_service = (\<lambda>prompt. Inl (ExternalError ''offline'')),
       add_picture_error = (\<lambda>path. None),
       gettempdir = ''/tmp'',
       uuid4_hex = (\<lambda>n. if n = 0 then ''0123456789abcdef0123456789abcdef''
                         else ''fedcba9876543210fedcba9876543210''),
       save_error = (\<lambda>path. None),
       upload_error = (\<lambda>name. None),
       now_ts = ''2024-01-01T00:00:00'' \<rparr>"

definition empty_world :: gen_world where
  "empty_world = \<lparr> uuid_draws = 0, local_files = Map.empty, blobs = Map.empty \<rparr>"

text \<open>A slide whose only shape is a picture named \<open>Icon 1\<close>.\<close>

definition icon_picture :: shape where
  "icon_picture =
     \<lparr> shape_type = Inr PICTURE, shape_name = ''Icon 1'',
       chart_type = Inl AttributeError, auto_shape_type = Inl AttributeError,
       fill_rgb = Absent, line_rgb = Absent, run_fonts = [] \<rparr>"

definition icon_slide :: slide where
  "icon_slide =
     \<lparr> layout_name = Present ''Title and Content'', background_rgb = Absent,
       slide_shapes = [icon_picture] \<rparr>"

text \<open>
  A design cache that already holds the file of \<open>decks/q3.pptx\<close>, and a dataset
  container that serves every download.
\<close>

definition stub_dx_env :: dx_env where
  "stub_dx_env =
     \<lparr> dx_download_blob = (\<lambda>name. Inr ''PK''),
       dx_parse = (\<lambda>bytes. Inr \<lparr> theme_rgbs = [], font_names = [],
                                   slide_layout_names = [], pres_slides = [] \<rparr>),
       dx_gettempdir = ''/tmp'',
       dx_now_ts = ''2024-01-01T00:00:00'' \<rparr>"

definition cached_world :: dx_world where
  "cached_world =
     \<lparr> dx_files = [''design_jsons/q3.pptx.json'' \<mapsto> RawBytes ''{}''],
       dx_downloads = [] \<rparr>"

text \<open>
  An ingestion run on a deck of two slides: the embedding service returns one vector
  for each text, and the collection accepts the call.
\<close>

definition stub_ing_env :: ing_env where
  "stub_ing_env =
     \<lparr> ing_download_blob = (\<lambda>name. Inr ''PK''),
       ing_parse = (\<lambda>bytes. Inr [[Some ''  Welcome '', None], [Some ''Agenda'', Some ''Items'']]),
       embeddings_create = (\<lambda>texts. Inr (map (\<lambda>t. [1]) texts)),
       add_error = (\<lambda>call. None),
       uuid4_str = (\<lambda>n. ''id-'' @ str_of_nat n),
       ing_gettempdir = ''/tmp'' \<rparr>"

definition empty_ing_world :: ing_world where
  "empty_ing_world = \<lparr> ing_files = Map.empty, ing_uuid_draws = 0, collection = [] \<rparr>"

text \<open>A shape of no listed type named \<open>Mail ICON\<close>, on a slide beside the picture.\<close>

definition icon_other :: shape where
  "icon_other = icon_picture \<lparr> shape_type := Inr OTHER_TYPE, shape_name := ''Mail ICON'' \<rparr>"

definition mixed_slide :: slide where
  "mixed_slide = icon_slide \<lparr> slide_shapes := [icon_picture, icon_other] \<rparr>"

text \<open>A run in which everything around the import of line 9 succeeds.\<close>

definition clean_load_env :: load_env where
  "clean_load_env =
     \<lparr> imports_before = None, design_extractor_body = None, module_rest = None \<rparr>"

section \<open>Properties of intent detection\<close>

subsection \<open>The search against the reading of the pattern\<close>

lemma str_in_sublist: "str_in t p \<longleftrightarrow> sublist t p"
  by (induction p) (auto simp: sublist_Cons_right)

lemma detect_theme_first:
  "i < length ts \<Longrightarrow> str_in (ts ! i) p \<Longrightarrow> \<forall>j<i. \<not> str_in (ts ! j) p
     \<Longrightarrow> detect_theme ts p = Some (capitalize (ts ! i))"
proof (induction ts arbitrary: i)
  case Nil
  then show ?case by simp
next
  case (Cons t ts)
  show ?case
  proof (cases i)
    case 0
    with Cons.prems show ?thesis by simp
  next
    case (Suc k)
    with Cons.prems have "\<not> str_in t p" by auto
    moreover have "detect_theme ts p = Some (capitalize (ts ! k))"
    proof (rule Cons.IH)
      show "k < length ts" using Cons.prems Suc by simp
      show "str_in (ts ! k) p" using Cons.prems Suc by simp
      show "\<forall>j<k. \<not> str_in (ts ! j) p"
      proof (intro allI impI)
        fix j assume "j < k"
        then have "Suc j < i" using Suc by simp
        with Cons.prems(3) have "\<not> str_in ((t # ts) ! Suc j) p" by blast
        then show "\<not> str_in (ts ! j) p" by simp
      qed
    qed
    ultimately show ?thesis using Suc by simp
  qed
qed

lemma first_hit_exists:
  "t \<in> set ts \<Longrightarrow> P t \<Longrightarrow> \<exists>i<length ts. P (ts ! i) \<and> (\<forall>j<i. \<not> P (ts ! j))"
proof -
  assume "t \<in> set ts" "P t"
  then obtain k where k: "k < length ts" "P (ts ! k)" by (auto simp: in_set_conv_nth)
  define i where "i = (LEAST n. n < length ts \<and> P (ts ! n))"
  have a: "i < length ts \<and> P (ts ! i)"
    unfolding i_def by (rule LeastI [of "\<lambda>n. n < length ts \<and> P (ts ! n)" k]) (use k in simp)
  have b: "\<forall>j<i. \<not> P (ts ! j)"
  proof (intro allI impI notI)
    fix j assume "j < i" "P (ts ! j)"
    then have "j < length ts \<and> P (ts ! j)" using a by simp
    then have "i \<le> j" unfolding i_def by (rule Least_le)
    with \<open>j < i\<close> show False by simp
  qed
  from a b show ?thesis by blast
qed











text \<open>
  C6: when the lower-cased prompt contains two or more words of the theme vocabulary,
  the detected theme is the capitalised first entry, in the order of the vocabulary,
  that occurs in it; a prompt with both \<open>dark\<close> and \<open>corporate\<close> has theme
  \<open>Corporate\<close>, wherever the two words stand in the text.
\<close>

theorem detected_theme_vocabulary_order:
  "(t1 \<in> set theme_words \<and> t2 \<in> set theme_words \<and> t1 \<noteq> t2 \<and>
    sublist t1 (lower prompt) \<and> sublist t2 (lower prompt) \<longrightarrow>
      (\<exists>i<length theme_words.
          snd (parse_user_intent prompt) = Some (capitalize (theme_words ! i)) \<and>
          sublist (theme_words ! i) (lower prompt) \<and>
          (\<forall>j<i. \<not> sublist (theme_words ! j) (lower prompt)))) \<and>
   (sublist ''dark'' (lower prompt) \<and> sublist ''corporate'' (lower prompt) \<longrightarrow>
      snd (parse_user_intent prompt) = Some ''Corporate'')"
proof (intro conjI impI)
  assume a: "t1 \<in> set theme_words \<and> t2 \<in> set theme_words \<and> t1 \<noteq> t2 \<and>
    sublist t1 (lower prompt) \<and> sublist t2 (lower prompt)"
  then obtain i where i: "i < length theme_words" "sublist (theme_words ! i) (lower prompt)"
    "\<forall>j<i. \<not> sublist (theme_words ! j) (lower prompt)"
    using first_hit_exists [of t1 theme_words "\<lambda>t. sublist t (lower prompt)"] by blast
  then have "detect_theme theme_words (lower prompt) = Some (capitalize (theme_words ! i))"
    by (intro detect_theme_first) (simp_all add: str_in_sublist)
  with i show "\<exists>i<length theme_words.
          snd (parse_user_intent prompt) = Some (capitalize (theme_words ! i)) \<and>
          sublist (theme_words ! i) (lower prompt) \<and>
          (\<forall>j<i. \<not> sublist (theme_words ! j) (lower prompt))"
    by (auto simp: parse_user_intent_def)
next
  assume "sublist ''dark'' (lower prompt) \<and> sublist ''corporate'' (lower prompt)"
  then have "str_in ''corporate'' (lower prompt)" by (simp add: str_in_sublist)
  then have "detect_theme theme_words (lower prompt) = Some (capitalize ''corporate'')"
    by (simp add: theme_words_def)
  moreover have "capitalize ''corporate'' = ''Corporate''" by code_simp
  ultimately show "snd (parse_user_intent prompt) = Some ''Corporate''"
    by (simp add: parse_user_intent_def)
qed

theorem detected_theme_vocabulary_order_witness:
  "sublist ''dark'' (lower ''A DARK deck, Corporate look'') \<and>
   sublist ''corporate'' (lower ''A DARK deck, Corporate look'') \<and>
   snd (parse_user_intent ''A DARK deck, Corporate look'') = Some ''Corporate'' \<and>
   (\<exists>i<length theme_words.
      snd (parse_user_intent ''A DARK deck, Corporate look'')
        = Some (capitalize (theme_words ! i)) \<and>
      sublist (theme_words ! i) (lower ''A DARK deck, Corporate look'') \<and>
      (\<forall>j<i. \<not> sublist (theme_words ! j) (lower ''A DARK deck, Corporate look'')))"
proof -
  have l: "lower ''A DARK deck, Corporate look'' = ''a dark deck, corporate look''"
    by code_simp
  have d: "sublist ''dark'' (lower ''A DARK deck, Corporate look'')"
    unfolding l sublist_def by (intro exI [of _ "''a ''"] exI [of _ "'' deck, corporate look''"]) simp
  have c: "sublist ''corporate'' (lower ''A DARK deck, Corporate look'')"
    unfolding l sublist_def by (intro exI [of _ "''a dark deck, ''"] exI [of _ "'' look''"]) simp
  have m: "''dark'' \<in> set theme_words \<and> ''corporate'' \<in> set theme_words \<and> ''dark'' \<noteq> ''corporate''"
    by (simp add: theme_words_def)
  show ?thesis
    using detected_theme_vocabulary_order
      [of "''dark''" "''corporate''" "''A DARK deck, Corporate look''"] d c m
    by blast
qed

section \<open>Properties of the generation pipeline\<close>

lemma prepare_intent:
  "prepare env prompt req theme tags = Inr (n, th, dc, rt)
     \<Longrightarrow> (n, th) = resolve_intent prompt req theme"
  by (auto simp: prepare_def split: prod.splits sum.splits)

lemma call_llm_plan_total:
  "\<exists>plan. call_llm_plan env prompt style dc rt n th = Inr plan"
  by (simp add: call_llm_plan_def Let_def split: sum.splits)

lemma call_llm_plan_fallback:
  "plan_step_fails env (sys_prompt env th dc rt) (user_prompt prompt style n)
     \<Longrightarrow> call_llm_plan env prompt style dc rt n th = Inr fallback_plan"
  by (simp add: call_llm_plan_def plan_step_fails_def Let_def split: sum.splits)

text \<open>What a successful run of the last stage returns and leaves behind.\<close>

lemma finish_Inr:
  assumes "finish env w prompt style n th dc rt plan = Inr ((path, lg), w')"
  shows "\<exists>slides. slides_of_plan env plan = Inr slides \<and>
           path = path_join (gettempdir env) (local_name env (uuid_draws w)) \<and>
           lg = \<lparr> log_timestamp = now_ts env, log_prompt = prompt, log_style = style,
                   log_theme = th, log_requested_num_slides = n,
                   references_used = length rt, design_jsons_used = length dc,
                   slides_generated = length slides,
                   ppt_file = upload_name env (Suc (uuid_draws w)) \<rparr> \<and>
           local_files w' path = Some (Pptx (map (render_slide env) slides)) \<and>
           blobs w' = (blobs w)
             (upload_name env (Suc (uuid_draws w)) \<mapsto> Pptx (map (render_slide env) slides),
              ''logs/'' @ upload_name env (Suc (uuid_draws w)) @ ''.json'' \<mapsto> LogJson lg) \<and>
           uuid_draws w' = uuid_draws w + 2"
  using assms
  by (auto simp: finish_def build_ppt_def upload_ppt_to_blob_def upload_json_to_blob_def
        Let_def split: sum.splits option.splits prod.splits)

lemma finish_Inl:
  assumes "finish env w prompt style n th dc rt plan = Inl e"
    and "slides_of_plan env plan = Inr slides"
  shows "save_error env (path_join (gettempdir env) (local_name env (uuid_draws w))) = Some e \<or>
         upload_error env (upload_name env (Suc (uuid_draws w))) = Some e \<or>
         upload_error env (''logs/'' @ upload_name env (Suc (uuid_draws w)) @ ''.json'') = Some e"
  using assms
  by (auto simp: finish_def build_ppt_def upload_ppt_to_blob_def upload_json_to_blob_def
        Let_def split: sum.splits option.splits prod.splits)

lemma generate_presentation_Inr:
  assumes "generate_presentation env w prompt style req theme tags = Inr ((path, lg), w')"
  shows "\<exists>n th dc rt plan.
           prepare env prompt req theme tags = Inr (n, th, dc, rt) \<and>
           call_llm_plan env prompt style dc rt n th = Inr plan \<and>
           finish env w prompt style n th dc rt plan = Inr ((path, lg), w')"
  using assms
  by (auto simp: generate_presentation_def split: sum.splits prod.splits)

lemma finish_progress:
  assumes "slides_of_plan env plan = Inr slides"
    and "save_error env (path_join (gettempdir env) (local_name env (uuid_draws w))) = None"
    and "upload_error env (upload_name env (Suc (uuid_draws w))) = None"
    and "upload_error env (''logs/'' @ upload_name env (Suc (uuid_draws w)) @ ''.json'') = None"
  shows "\<exists>path lg w'. finish env w prompt style n th dc rt plan = Inr ((path, lg), w')"
  using assms
  by (simp add: finish_def build_ppt_def upload_ppt_to_blob_def upload_json_to_blob_def Let_def)

lemma slides_of_fallback_plan:
  "slides_of_plan env fallback_plan =
     Inr [\<lparr> slide_title = JStr ''Intro'', slide_bullets = JArr [JStr ''Overview''],
            image_path = None \<rparr>]"
  by (simp add: fallback_plan_def make_slide_def dict_get_def)

lemma render_intro:
  "render_slide env \<lparr> slide_title = JStr ''Intro'', slide_bullets = JArr [JStr ''Overview''],
            image_path = None \<rparr> =
     \<lparr> ds_title = Some ''Intro'', ds_bullets = [[], ''Overview''], ds_picture = None \<rparr>"
  by (simp add: render_slide_def cleared_text_frame_def)

lemma path_join_length: "length b \<le> length (path_join a b)"
  by (simp add: path_join_def)

lemma local_path_not_upload_name:
  "path_join (gettempdir env) (local_name env k) \<noteq> upload_name env k'"
proof
  assume e: "path_join (gettempdir env) (local_name env k) = upload_name env k'"
  have "length (upload_name env k') \<le> 23" by (simp add: upload_name_def)
  moreover have "28 \<le> length (local_name env k)" by (simp add: local_name_def)
  moreover have "length (local_name env k) \<le> length (path_join (gettempdir env) (local_name env k))"
    by (rule path_join_length)
  ultimately show False using e by simp
qed

lemma stub_run:
  "\<exists>path lg w'. generate_presentation stub_env empty_world prompt style requested theme tags
     = Inr ((path, lg), w')"
proof -
  obtain n th where r: "resolve_intent prompt requested theme = (n, th)" by (cases "resolve_intent prompt requested theme")
  have p: "prepare stub_env prompt requested theme tags = Inr (n, th, [], [])"
    by (simp add: prepare_def r stub_env_def)
  have c: "call_llm_plan stub_env prompt style [] [] n th = Inr fallback_plan"
    by (simp add: call_llm_plan_def stub_env_def Let_def)
  have "\<exists>path lg w'. finish stub_env empty_world prompt style n th [] [] fallback_plan = Inr ((path, lg), w')"
    by (rule finish_progress [OF slides_of_fallback_plan]) (simp_all add: stub_env_def)
  then show ?thesis by (simp add: generate_presentation_def p c)
qed

text \<open>
  C3, as the specification states it: a caller-supplied slide count, 0 included, is the
  resolved slide count. With the prompt \<open>Make 7 slides\<close> and the caller's count 0 the
  resolved count is 7: \<open>or\<close> takes 0 for an absent value.
\<close>

theorem caller_zero_slide_count_counterexample:
  "fst (resolve_intent ''Make 7 slides'' (Some 0) None) = Some 7 \<and>
   fst (resolve_intent ''Make 7 slides'' (Some 0) None) \<noteq> Some 0"
  by code_simp

text \<open>
  C3, amended: a caller-supplied slide count other than 0 and a caller-supplied theme
  other than the empty string are the resolved values; where the caller supplies
  nothing, or 0, or the empty theme, the detected value is used; and the resolved
  values are the ones that the generation log records.
\<close>

theorem caller_values_take_precedence:
  "(requested = Some k \<and> k \<noteq> 0 \<longrightarrow>
      fst (resolve_intent prompt requested theme) = Some k) \<and>
   (theme = Some t \<and> t \<noteq> [] \<longrightarrow>
      snd (resolve_intent prompt requested theme) = Some t) \<and>
   (requested = None \<or> requested = Some 0 \<longrightarrow>
      fst (resolve_intent prompt requested theme) = fst (parse_user_intent prompt)) \<and>
   (theme = None \<or> theme = Some [] \<longrightarrow>
      snd (resolve_intent prompt requested theme) = snd (parse_user_intent prompt)) \<and>
   (generate_presentation env w prompt style requested theme tags = Inr ((path, lg), w') \<longrightarrow>
      log_requested_num_slides lg = fst (resolve_intent prompt requested theme) \<and>
      log_theme lg = snd (resolve_intent prompt requested theme))"
proof (intro conjI impI)
  assume "generate_presentation env w prompt style requested theme tags = Inr ((path, lg), w')"
  then obtain n th dc rt plan where
    p: "prepare env prompt requested theme tags = Inr (n, th, dc, rt)" and
    f: "finish env w prompt style n th dc rt plan = Inr ((path, lg), w')"
    using generate_presentation_Inr by blast
  from p have i: "(n, th) = resolve_intent prompt requested theme" by (rule prepare_intent)
  from finish_Inr [OF f] have "log_requested_num_slides lg = n" "log_theme lg = th" by auto
  with i show "log_requested_num_slides lg = fst (resolve_intent prompt requested theme)"
    "log_theme lg = snd (resolve_intent prompt requested theme)"
    by (metis fst_conv, metis snd_conv)
qed (auto simp: resolve_intent_def py_or_def split: prod.splits)

theorem caller_values_take_precedence_witness:
  "fst (resolve_intent ''Make 7 slides, modern'' (Some 3) (Some ''Dark'')) = Some 3 \<and>
   snd (resolve_intent ''Make 7 slides, modern'' (Some 3) (Some ''Dark'')) = Some ''Dark'' \<and>
   fst (resolve_intent ''Make 7 slides, modern'' (Some 0) (Some [])) = Some 7 \<and>
   snd (resolve_intent ''Make 7 slides, modern'' (Some 0) (Some [])) = Some ''Modern'' \<and>
   (\<exists>path lg w'.
      generate_presentation stub_env empty_world ''Make 7 slides, modern'' ''Auto''
        (Some 3) (Some ''Dark'') None = Inr ((path, lg), w') \<and>
      log_requested_num_slides lg = Some 3 \<and> log_theme lg = Some ''Dark'')"
proof -
  have d: "parse_user_intent ''Make 7 slides, modern'' = (Some 7, Some ''Modern'')"
    by code_simp
  obtain path lg w' where
    g: "generate_presentation stub_env empty_world ''Make 7 slides, modern'' ''Auto''
        (Some 3) (Some ''Dark'') None = Inr ((path, lg), w')"
    using stub_run by blast
  note a = caller_values_take_precedence
    [of "Some 3" 3 "''Make 7 slides, modern''" "Some ''Dark''" "''Dark''"
        stub_env empty_world "''Auto''" None path lg w']
  note b = caller_values_take_precedence
    [of "Some 0" 0 "''Make 7 slides, modern''" "Some []" "[]"]
  from a g have "fst (resolve_intent ''Make 7 slides, modern'' (Some 3) (Some ''Dark'')) = Some 3"
    "snd (resolve_intent ''Make 7 slides, modern'' (Some 3) (Some ''Dark'')) = Some ''Dark''"
    "log_requested_num_slides lg = Some 3" "log_theme lg = Some ''Dark''"
    by simp_all
  moreover from b d have
    "fst (resolve_intent ''Make 7 slides, modern'' (Some 0) (Some [])) = Some 7"
    "snd (resolve_intent ''Make 7 slides, modern'' (Some 0) (Some [])) = Some ''Modern''"
    by simp_all
  ultimately show ?thesis using g by blast
qed

lemma finish_fallback:
  assumes "finish env w prompt style n th dc rt fallback_plan = Inr ((path, lg), w')"
  shows "slides_generated lg = 1 \<and>
         local_files w' path =
           Some (Pptx [\<lparr> ds_title = Some ''Intro'', ds_bullets = [[], ''Overview''],
                          ds_picture = None \<rparr>])"
proof -
  from finish_Inr [OF assms] obtain slides where
    s: "slides_of_plan env fallback_plan = Inr slides" and
    l: "slides_generated lg = length slides" and
    f: "local_files w' path = Some (Pptx (map (render_slide env) slides))"
    by auto
  from s have "slides = [\<lparr> slide_title = JStr ''Intro'',
      slide_bullets = JArr [JStr ''Overview''], image_path = None \<rparr>]"
    by (simp add: slides_of_fallback_plan)
  with l f show ?thesis by (simp add: render_intro)
qed

lemma stub_prepare:
  "prepare stub_env ''Talk about birds'' None None None = Inr (None, None, [], [])"
proof -
  have "parse_user_intent ''Talk about birds'' = (None, None)" by code_simp
  then show ?thesis
    by (simp add: prepare_def resolve_intent_def py_or_def stub_env_def)
qed

lemma stub_plan_step_fails: "plan_step_fails stub_env sys usr"
  by (simp add: plan_step_fails_def stub_env_def)

text \<open>
  C4: when the plan-generation step fails (the chat call raises, or the tolerant parse
  raises or returns a value that is not true), \<open>call_llm_plan\<close> returns the one-entry
  fallback plan, and it never raises. Then a run of \<open>generate_presentation\<close> that
  returns has a log with \<open>slides_generated = 1\<close> and a document of one slide titled
  \<open>Intro\<close>, whose body is the empty paragraph that clearing the text frame keeps
  followed by the bullet \<open>Overview\<close>; and the run does return when saving the
  document and the two uploads do not raise.
\<close>

theorem plan_failure_falls_back:
  "(plan_step_fails env (sys_prompt env th dc rt) (user_prompt prompt style n) \<longrightarrow>
      call_llm_plan env prompt style dc rt n th = Inr fallback_plan) \<and>
   (\<forall>e. call_llm_plan env prompt style dc rt n th \<noteq> Inl e) \<and>
   (prepare env prompt requested theme tags = Inr (n, th, dc, rt) \<and>
    plan_step_fails env (sys_prompt env th dc rt) (user_prompt prompt style n) \<longrightarrow>
      (generate_presentation env w prompt style requested theme tags = Inr ((path, lg), w') \<longrightarrow>
         slides_generated lg = 1 \<and>
         local_files w' path =
           Some (Pptx [\<lparr> ds_title = Some ''Intro'', ds_bullets = [[], ''Overview''],
                          ds_picture = None \<rparr>])) \<and>
      (save_error env (path_join (gettempdir env) (local_name env (uuid_draws w))) = None \<and>
       upload_error env (upload_name env (Suc (uuid_draws w))) = None \<and>
       upload_error env (''logs/'' @ upload_name env (Suc (uuid_draws w)) @ ''.json'') = None \<longrightarrow>
         (\<exists>p l v. generate_presentation env w prompt style requested theme tags
                    = Inr ((p, l), v))))"
proof -
  have a1: "plan_step_fails env (sys_prompt env th dc rt) (user_prompt prompt style n) \<longrightarrow>
      call_llm_plan env prompt style dc rt n th = Inr fallback_plan"
    by (simp add: call_llm_plan_fallback)
  have a2: "\<forall>e. call_llm_plan env prompt style dc rt n th \<noteq> Inl e"
    using call_llm_plan_total [of env prompt style dc rt n th] by auto
  have a3: "slides_generated lg = 1 \<and>
         local_files w' path =
           Some (Pptx [\<lparr> ds_title = Some ''Intro'', ds_bullets = [[], ''Overview''],
                          ds_picture = None \<rparr>])"
    if a: "prepare env prompt requested theme tags = Inr (n, th, dc, rt)"
      "plan_step_fails env (sys_prompt env th dc rt) (user_prompt prompt style n)"
      and g: "generate_presentation env w prompt style requested theme tags
                = Inr ((path, lg), w')"
  proof -
    from a have c: "call_llm_plan env prompt style dc rt n th = Inr fallback_plan"
      by (simp add: call_llm_plan_fallback)
    from g a c have "finish env w prompt style n th dc rt fallback_plan = Inr ((path, lg), w')"
      by (simp add: generate_presentation_def)
    then show ?thesis by (rule finish_fallback)
  qed
  have a4: "\<exists>p l v. generate_presentation env w prompt style requested theme tags
                    = Inr ((p, l), v)"
    if a: "prepare env prompt requested theme tags = Inr (n, th, dc, rt)"
      "plan_step_fails env (sys_prompt env th dc rt) (user_prompt prompt style n)"
      and ok: "save_error env (path_join (gettempdir env) (local_name env (uuid_draws w))) = None"
       "upload_error env (upload_name env (Suc (uuid_draws w))) = None"
       "upload_error env (''logs/'' @ upload_name env (Suc (uuid_draws w)) @ ''.json'') = None"
  proof -
    from a have c: "call_llm_plan env prompt style dc rt n th = Inr fallback_plan"
      by (simp add: call_llm_plan_fallback)
    have "\<exists>p l v. finish env w prompt style n th dc rt fallback_plan = Inr ((p, l), v)"
      by (rule finish_progress [OF slides_of_fallback_plan ok])
    with a c show ?thesis by (simp add: generate_presentation_def)
  qed
  from a1 a2 a3 a4 show ?thesis by blast
qed

theorem plan_failure_falls_back_witness:
  "plan_step_fails stub_env (sys_prompt stub_env None [] [])
     (user_prompt ''Talk about birds'' ''Auto'' None) \<and>
   call_llm_plan stub_env ''Talk about birds'' ''Auto'' [] [] None None = Inr fallback_plan \<and>
   (\<exists>path lg w'.
      generate_presentation stub_env empty_world ''Talk about birds'' ''Auto'' None None None
        = Inr ((path, lg), w') \<and>
      slides_generated lg = 1 \<and>
      local_files w' path =
        Some (Pptx [\<lparr> ds_title = Some ''Intro'', ds_bullets = [[], ''Overview''],
                       ds_picture = None \<rparr>]))"
proof -
  have f: "plan_step_fails stub_env (sys_prompt stub_env None [] [])
     (user_prompt ''Talk about birds'' ''Auto'' None)"
    by (rule stub_plan_step_fails)
  have ok: "save_error stub_env (path_join (gettempdir stub_env)
              (local_name stub_env (uuid_draws empty_world))) = None \<and>
       upload_error stub_env (upload_name stub_env (Suc (uuid_draws empty_world))) = None \<and>
       upload_error stub_env
         (''logs/'' @ upload_name stub_env (Suc (uuid_draws empty_world)) @ ''.json'') = None"
    by (simp add: stub_env_def)
  note t = plan_failure_falls_back
    [of stub_env None "[]" "[]" "''Talk about birds''" "''Auto''" None None None None
        empty_world]
  from t f have c: "call_llm_plan stub_env ''Talk about birds'' ''Auto'' [] [] None None
      = Inr fallback_plan"
    by blast
  from t f ok stub_prepare obtain p l v where
    g: "generate_presentation stub_env empty_world ''Talk about birds'' ''Auto'' None None None
        = Inr ((p, l), v)"
    by blast
  from plan_failure_falls_back
    [of stub_env None "[]" "[]" "''Talk about birds''" "''Auto''" None None None None
        empty_world p l v] f stub_prepare g
  have "slides_generated l = 1 \<and>
      local_files v p =
        Some (Pptx [\<lparr> ds_title = Some ''Intro'', ds_bullets = [[], ''Overview''],
                       ds_picture = None \<rparr>])"
    by blast
  with f c g show ?thesis by blast
qed

text \<open>
  C9: a run that returns gives the path of the local temporary file, named
  \<open>generated_presentation_\<close>, the first eight characters of one draw of the random
  source, \<open>.pptx\<close>; the same document is uploaded under \<open>generated_\<close>, the first
  eight characters of the next draw, \<open>.pptx\<close>, which is not the returned path; the
  log records the uploaded name and is uploaded under \<open>logs/\<close>, that name,
  \<open>.json\<close>. When the draws are 32 hexadecimal digits, both suffixes are 8
  hexadecimal digits.
\<close>

theorem returned_path_is_local_file:
  "generate_presentation env w prompt style requested theme tags = Inr ((path, lg), w') \<longrightarrow>
     path = path_join (gettempdir env)
              (''generated_presentation_'' @ take 8 (uuid4_hex env (uuid_draws w)) @ ''.pptx'') \<and>
     ppt_file lg = ''generated_'' @ take 8 (uuid4_hex env (Suc (uuid_draws w))) @ ''.pptx'' \<and>
     path \<noteq> ppt_file lg \<and>
     (\<exists>doc. local_files w' path = Some (Pptx doc) \<and>
            blobs w' (ppt_file lg) = Some (Pptx doc)) \<and>
     blobs w' (''logs/'' @ ppt_file lg @ ''.json'') = Some (LogJson lg) \<and>
     ((\<forall>k. length (uuid4_hex env k) = 32 \<and> set (uuid4_hex env k) \<subseteq> hex_digits) \<longrightarrow>
        (\<exists>h1 h2. length h1 = 8 \<and> set h1 \<subseteq> hex_digits \<and>
                 length h2 = 8 \<and> set h2 \<subseteq> hex_digits \<and>
                 path = path_join (gettempdir env) (''generated_presentation_'' @ h1 @ ''.pptx'') \<and>
                 ppt_file lg = ''generated_'' @ h2 @ ''.pptx''))"
proof
  assume "generate_presentation env w prompt style requested theme tags = Inr ((path, lg), w')"
  then obtain n th dc rt plan where
    f: "finish env w prompt style n th dc rt plan = Inr ((path, lg), w')"
    using generate_presentation_Inr by blast
  from finish_Inr [OF f] obtain slides where
    p: "path = path_join (gettempdir env) (local_name env (uuid_draws w))" and
    n: "ppt_file lg = upload_name env (Suc (uuid_draws w))" and
    l: "local_files w' path = Some (Pptx (map (render_slide env) slides))" and
    b: "blobs w' = (blobs w)
             (upload_name env (Suc (uuid_draws w)) \<mapsto> Pptx (map (render_slide env) slides),
              ''logs/'' @ upload_name env (Suc (uuid_draws w)) @ ''.json'' \<mapsto> LogJson lg)"
    by auto
  have ne: "upload_name env (Suc (uuid_draws w)) \<noteq>
            ''logs/'' @ upload_name env (Suc (uuid_draws w)) @ ''.json''"
    by (simp add: upload_name_def)
  have b1: "blobs w' (ppt_file lg) = Some (Pptx (map (render_slide env) slides))"
    using ne by (simp add: b n)
  have b2: "blobs w' (''logs/'' @ ppt_file lg @ ''.json'') = Some (LogJson lg)"
    by (simp add: b n)
  have d: "path \<noteq> ppt_file lg"
    unfolding p n by (rule local_path_not_upload_name)
  have h: "(\<forall>k. length (uuid4_hex env k) = 32 \<and> set (uuid4_hex env k) \<subseteq> hex_digits) \<longrightarrow>
        (\<exists>h1 h2. length h1 = 8 \<and> set h1 \<subseteq> hex_digits \<and>
                 length h2 = 8 \<and> set h2 \<subseteq> hex_digits \<and>
                 path = path_join (gettempdir env) (''generated_presentation_'' @ h1 @ ''.pptx'') \<and>
                 ppt_file lg = ''generated_'' @ h2 @ ''.pptx'')"
  proof
    assume u: "\<forall>k. length (uuid4_hex env k) = 32 \<and> set (uuid4_hex env k) \<subseteq> hex_digits"
    have t: "\<And>k. length (take 8 (uuid4_hex env k)) = 8 \<and>
                 set (take 8 (uuid4_hex env k)) \<subseteq> hex_digits"
    proof -
      fix k
      from u have "length (uuid4_hex env k) = 32" "set (uuid4_hex env k) \<subseteq> hex_digits"
        by simp_all
      moreover have "set (take 8 (uuid4_hex env k)) \<subseteq> set (uuid4_hex env k)"
        by (rule set_take_subset)
      ultimately show "length (take 8 (uuid4_hex env k)) = 8 \<and>
                 set (take 8 (uuid4_hex env k)) \<subseteq> hex_digits"
        by auto
    qed
    show "\<exists>h1 h2. length h1 = 8 \<and> set h1 \<subseteq> hex_digits \<and>
                 length h2 = 8 \<and> set h2 \<subseteq> hex_digits \<and>
                 path = path_join (gettempdir env) (''generated_presentation_'' @ h1 @ ''.pptx'') \<and>
                 ppt_file lg = ''generated_'' @ h2 @ ''.pptx''"
      using t [of "uuid_draws w"] t [of "Suc (uuid_draws w)"] p n
      by (intro exI [of _ "take 8 (uuid4_hex env (uuid_draws w))"]
                exI [of _ "take 8 (uuid4_hex env (Suc (uuid_draws w)))"])
         (simp add: local_name_def upload_name_def)
  qed
  show "path = path_join (gettempdir env)
              (''generated_presentation_'' @ take 8 (uuid4_hex env (uuid_draws w)) @ ''.pptx'') \<and>
     ppt_file lg = ''generated_'' @ take 8 (uuid4_hex env (Suc (uuid_draws w))) @ ''.pptx'' \<and>
     path \<noteq> ppt_file lg \<and>
     (\<exists>doc. local_files w' path = Some (Pptx doc) \<and>
            blobs w' (ppt_file lg) = Some (Pptx doc)) \<and>
     blobs w' (''logs/'' @ ppt_file lg @ ''.json'') = Some (LogJson lg) \<and>
     ((\<forall>k. length (uuid4_hex env k) = 32 \<and> set (uuid4_hex env k) \<subseteq> hex_digits) \<longrightarrow>
        (\<exists>h1 h2. length h1 = 8 \<and> set h1 \<subseteq> hex_digits \<and>
                 length h2 = 8 \<and> set h2 \<subseteq> hex_digits \<and>
                 path = path_join (gettempdir env) (''generated_presentation_'' @ h1 @ ''.pptx'') \<and>
                 ppt_file lg = ''generated_'' @ h2 @ ''.pptx''))"
    using p n d l b1 b2 h by (simp add: local_name_def upload_name_def)
qed

theorem returned_path_is_local_file_witness:
  "(\<forall>k. length (uuid4_hex stub_env k) = 32 \<and> set (uuid4_hex stub_env k) \<subseteq> hex_digits) \<and>
   (\<exists>path lg w'.
      generate_presentation stub_env empty_world ''Talk about birds'' ''Auto'' None None None
        = Inr ((path, lg), w') \<and>
      path = ''/tmp/generated_presentation_01234567.pptx'' \<and>
      ppt_file lg = ''generated_fedcba98.pptx'' \<and>
      path \<noteq> ppt_file lg \<and>
      (\<exists>doc. local_files w' path = Some (Pptx doc) \<and>
             blobs w' (ppt_file lg) = Some (Pptx doc)) \<and>
      blobs w' (''logs/'' @ ppt_file lg @ ''.json'') = Some (LogJson lg) \<and>
      (\<exists>h1 h2. length h1 = 8 \<and> set h1 \<subseteq> hex_digits \<and>
               length h2 = 8 \<and> set h2 \<subseteq> hex_digits \<and>
               path = path_join (gettempdir stub_env)
                        (''generated_presentation_'' @ h1 @ ''.pptx'') \<and>
               ppt_file lg = ''generated_'' @ h2 @ ''.pptx''))"
proof -
  have u: "\<forall>k. length (uuid4_hex stub_env k) = 32 \<and> set (uuid4_hex stub_env k) \<subseteq> hex_digits"
    by (simp add: stub_env_def hex_digits_def)
  obtain path lg w' where
    g: "generate_presentation stub_env empty_world ''Talk about birds'' ''Auto'' None None None
        = Inr ((path, lg), w')"
    using stub_run by blast
  note t = returned_path_is_local_file
    [of stub_env empty_world "''Talk about birds''" "''Auto''" None None None path lg w']
  have p: "path_join (gettempdir stub_env)
              (''generated_presentation_'' @ take 8 (uuid4_hex stub_env (uuid_draws empty_world))
                 @ ''.pptx'') = ''/tmp/generated_presentation_01234567.pptx''"
    by (simp add: stub_env_def empty_world_def path_join_def)
  have n: "''generated_'' @ take 8 (uuid4_hex stub_env (Suc (uuid_draws empty_world))) @ ''.pptx''
             = ''generated_fedcba98.pptx''"
    by (simp add: stub_env_def empty_world_def)
  from t g have c:
    "path = path_join (gettempdir stub_env)
              (''generated_presentation_'' @ take 8 (uuid4_hex stub_env (uuid_draws empty_world))
                 @ ''.pptx'')"
    "ppt_file lg = ''generated_'' @ take 8 (uuid4_hex stub_env (Suc (uuid_draws empty_world)))
                 @ ''.pptx''"
    "path \<noteq> ppt_file lg"
    "\<exists>doc. local_files w' path = Some (Pptx doc) \<and> blobs w' (ppt_file lg) = Some (Pptx doc)"
    "blobs w' (''logs/'' @ ppt_file lg @ ''.json'') = Some (LogJson lg)"
    by blast+
  from t g u have h: "\<exists>h1 h2. length h1 = 8 \<and> set h1 \<subseteq> hex_digits \<and>
               length h2 = 8 \<and> set h2 \<subseteq> hex_digits \<and>
               path = path_join (gettempdir stub_env)
                        (''generated_presentation_'' @ h1 @ ''.pptx'') \<and>
               ppt_file lg = ''generated_'' @ h2 @ ''.pptx''"
    by blast
  have "path = ''/tmp/generated_presentation_01234567.pptx''" using c(1) p by simp
  moreover have "ppt_file lg = ''generated_fedcba98.pptx''" using c(2) n by simp
  ultimately show ?thesis using u g c(3,4,5) h by blast
qed

text \<open>
  C10: a submission of the front end calls \<open>generate_presentation\<close> with the selected
  phase label as the style; the label is never \<open>Auto\<close>, and the generation log of the
  request, as returned and as uploaded, records the label as its style.
\<close>

theorem ui_style_is_phase:
  "phase \<in> set phases \<longrightarrow>
     phase \<noteq> ''Auto'' \<and>
     submit env w prompt phase =
       generate_presentation env w prompt phase None None
         (Some (if phase = ''Any'' then [] else [phase])) \<and>
     (submit env w prompt phase = Inr ((path, lg), w') \<longrightarrow>
        log_style lg = phase \<and>
        blobs w' (''logs/'' @ ppt_file lg @ ''.json'') = Some (LogJson lg))"
proof
  assume ph: "phase \<in> set phases"
  then have ne: "phase \<noteq> []" "phase \<noteq> ''Auto''" by (auto simp: phases_def)
  then have s: "submit env w prompt phase =
       generate_presentation env w prompt phase None None
         (Some (if phase = ''Any'' then [] else [phase]))"
    by (simp add: submit_def)
  have l: "log_style lg = phase \<and>
        blobs w' (''logs/'' @ ppt_file lg @ ''.json'') = Some (LogJson lg)"
    if r: "submit env w prompt phase = Inr ((path, lg), w')"
  proof -
    from r s obtain n th dc rt plan where
      f: "finish env w prompt phase n th dc rt plan = Inr ((path, lg), w')"
      using generate_presentation_Inr by metis
    from finish_Inr [OF f] show ?thesis by auto
  qed
  from ne s l show "phase \<noteq> ''Auto'' \<and>
     submit env w prompt phase =
       generate_presentation env w prompt phase None None
         (Some (if phase = ''Any'' then [] else [phase])) \<and>
     (submit env w prompt phase = Inr ((path, lg), w') \<longrightarrow>
        log_style lg = phase \<and>
        blobs w' (''logs/'' @ ppt_file lg @ ''.json'') = Some (LogJson lg))"
    by blast
qed

theorem ui_style_is_phase_witness:
  "''Design'' \<in> set phases \<and>
   (\<exists>path lg w'.
      submit stub_env empty_world ''Talk about birds'' ''Design'' = Inr ((path, lg), w') \<and>
      log_style lg = ''Design'' \<and> log_style lg \<noteq> ''Auto'' \<and>
      blobs w' (''logs/'' @ ppt_file lg @ ''.json'') = Some (LogJson lg))"
proof -
  have ph: "''Design'' \<in> set phases" by (simp add: phases_def)
  obtain path lg w' where
    g: "submit stub_env empty_world ''Talk about birds'' ''Design'' = Inr ((path, lg), w')"
    using stub_run [of "''Talk about birds''" "''Design''" None None "Some [''Design'']"]
    by (auto simp: submit_def)
  from ui_style_is_phase
    [of "''Design''" stub_env empty_world "''Talk about birds''" path lg w'] ph g
  have c: "log_style lg = ''Design''"
    "blobs w' (''logs/'' @ ppt_file lg @ ''.json'') = Some (LogJson lg)"
    by blast+
  from c(1) have "log_style lg \<noteq> ''Auto''" by simp
  with ph g c show ?thesis by blast
qed

section \<open>Properties of design extraction\<close>

lemma classify_icons:
  "classify st sh d = Inr d' \<Longrightarrow>
     icons d' = icons d @
       (if st = OTHER_TYPE \<and> str_in ''icon'' (lower (shape_name sh)) then [shape_name sh] else []) \<and>
     images d' = images d @ (if st = PICTURE then [shape_name sh] else []) \<and>
     tables d' = tables d @ (if st = TABLE then [shape_name sh] else []) \<and>
     charts d' = charts d @ (if st = CHART then [chart_label sh] else []) \<and>
     shapes d' = shapes d @ (if st = AUTO_SHAPE then auto_shape_label sh else [])"
  by (cases st)
     (auto simp: classify_def chart_label_def auto_shape_label_def split: sum.splits if_splits)

lemma classify_Inl:
  "classify st sh d = Inl e \<Longrightarrow> st = AUTO_SHAPE \<and> auto_shape_label sh = []"
  by (cases st) (auto simp: classify_def auto_shape_label_def split: sum.splits if_splits)

lemma add_accent_buckets:
  "add_accent p d = Inr d' \<Longrightarrow>
     icons d' = icons d \<and> images d' = images d \<and> tables d' = tables d \<and>
     charts d' = charts d \<and> shapes d' = shapes d"
  by (cases p) (auto simp: add_accent_def)

lemma shape_step_buckets:
  "icons (shape_step st sh d) = icons d @
       (if st = OTHER_TYPE \<and> str_in ''icon'' (lower (shape_name sh)) then [shape_name sh] else []) \<and>
   images (shape_step st sh d) = images d @ (if st = PICTURE then [shape_name sh] else []) \<and>
   tables (shape_step st sh d) = tables d @ (if st = TABLE then [shape_name sh] else []) \<and>
   charts (shape_step st sh d) = charts d @ (if st = CHART then [chart_label sh] else []) \<and>
   shapes (shape_step st sh d) = shapes d @ (if st = AUTO_SHAPE then auto_shape_label sh else [])"
proof (cases "classify st sh d")
  case (Inl e)
  then have "st = AUTO_SHAPE \<and> auto_shape_label sh = []" by (rule classify_Inl)
  with Inl show ?thesis by (simp add: shape_step_def)
next
  case (Inr d1)
  note c = classify_icons [OF Inr]
  show ?thesis
  proof (cases "add_accent (fill_rgb sh) d1")
    case (Inl e)
    with Inr c show ?thesis by (simp add: shape_step_def)
  next
    case d2: (Inr d2)
    note a2 = add_accent_buckets [OF d2]
    show ?thesis
    proof (cases "add_accent (line_rgb sh) d2")
      case (Inl e)
      with Inr d2 c a2 show ?thesis by (simp add: shape_step_def)
    next
      case d3: (Inr d3)
      note a3 = add_accent_buckets [OF d3]
      from Inr d2 d3 c a2 a3 show ?thesis by (simp add: shape_step_def)
    qed
  qed
qed

lemma scan_shapes_buckets:
  "scan_shapes shs d = Inr d' \<Longrightarrow>
     icons d' = icons d @ map shape_name (filter is_icon_shape shs) \<and>
     images d' = images d @ map shape_name (filter (has_type PICTURE) shs) \<and>
     tables d' = tables d @ map shape_name (filter (has_type TABLE) shs) \<and>
     charts d' = charts d @ map chart_label (filter (has_type CHART) shs) \<and>
     shapes d' = shapes d @ concat (map auto_shape_label (filter (has_type AUTO_SHAPE) shs))"
proof (induction shs arbitrary: d)
  case Nil
  then show ?case by simp
next
  case (Cons sh shs)
  from Cons.prems obtain st where st: "shape_type sh = Inr st"
    and r: "scan_shapes shs (shape_step st sh d) = Inr d'"
    by (auto split: sum.splits)
  from Cons.IH [OF r] shape_step_buckets [of st sh d] st
  show ?case by (auto simp: is_icon_shape_def has_type_def str_in_sublist)
qed

lemma scan_shapes_total:
  "(\<forall>sh \<in> set shs. \<exists>st. shape_type sh = Inr st) \<Longrightarrow> \<exists>d'. scan_shapes shs d = Inr d'"
  by (induction shs arbitrary: d) auto

text \<open>
  C2, as the specification states it: a shape whose name contains \<open>icon\<close> is added to
  the icons bucket whatever its type. In the code the test on the name is the last
  \<open>elif\<close> of the chain on the shape type: a picture named \<open>Icon 1\<close> goes to the
  images bucket and the icons bucket stays empty.
\<close>

theorem icon_named_picture_counterexample:
  "extract_slide_elements icon_slide =
     Inr \<lparr> layout = Some ''Title and Content'', background_color = None,
           images = [''Icon 1''], shapes = [], charts = [], tables = [], icons = [],
           text_fonts = {}, accent_colors = {} \<rparr> \<and>
   sublist ''icon'' (lower (shape_name icon_picture))"
proof -
  have "lower ''Icon 1'' = ''icon 1''" by code_simp
  then have "sublist ''icon'' (lower (shape_name icon_picture))"
    by (simp add: icon_picture_def sublist_def) (metis append_Nil)
  moreover have "extract_slide_elements icon_slide =
     Inr \<lparr> layout = Some ''Title and Content'', background_color = None,
           images = [''Icon 1''], shapes = [], charts = [], tables = [], icons = [],
           text_fonts = {}, accent_colors = {} \<rparr>"
    by (simp add: extract_slide_elements_def icon_slide_def icon_picture_def shape_step_def
          classify_def add_accent_def)
  ultimately show ?thesis by simp
qed

text \<open>
  C2, amended: the icons bucket holds the names of the shapes whose type is none of
  picture, table, chart and auto-shape and whose name contains \<open>icon\<close> in any case;
  a picture or a table goes to its bucket by name, a chart by its chart type (or
  \<open>Chart\<close>), an auto-shape by its auto-shape type, and to no other bucket. The
  extraction returns whenever the type of every shape can be read.
\<close>

theorem icons_bucket_is_for_untyped_shapes:
  "(extract_slide_elements sl = Inr d \<longrightarrow>
      icons d = map shape_name (filter is_icon_shape (slide_shapes sl)) \<and>
      images d = map shape_name (filter (has_type PICTURE) (slide_shapes sl)) \<and>
      tables d = map shape_name (filter (has_type TABLE) (slide_shapes sl)) \<and>
      charts d = map chart_label (filter (has_type CHART) (slide_shapes sl)) \<and>
      shapes d = concat (map auto_shape_label (filter (has_type AUTO_SHAPE) (slide_shapes sl)))) \<and>
   ((\<forall>sh \<in> set (slide_shapes sl). \<exists>st. shape_type sh = Inr st) \<longrightarrow>
      (\<exists>d'. extract_slide_elements sl = Inr d'))"
proof -
  have a: "\<exists>d'. extract_slide_elements sl = Inr d'"
    if "\<forall>sh \<in> set (slide_shapes sl). \<exists>st. shape_type sh = Inr st"
    unfolding extract_slide_elements_def using that by (rule scan_shapes_total)
  have b: "icons d = map shape_name (filter is_icon_shape (slide_shapes sl)) \<and>
      images d = map shape_name (filter (has_type PICTURE) (slide_shapes sl)) \<and>
      tables d = map shape_name (filter (has_type TABLE) (slide_shapes sl)) \<and>
      charts d = map chart_label (filter (has_type CHART) (slide_shapes sl)) \<and>
      shapes d = concat (map auto_shape_label (filter (has_type AUTO_SHAPE) (slide_shapes sl)))"
    if e: "extract_slide_elements sl = Inr d"
    using scan_shapes_buckets [OF e [unfolded extract_slide_elements_def]] by simp
  from a b show ?thesis by blast
qed

theorem icons_bucket_is_for_untyped_shapes_witness:
  "\<exists>d. extract_slide_elements mixed_slide = Inr d \<and>
       icons d = [''Mail ICON''] \<and> images d = [''Icon 1''] \<and> tables d = []"
proof -
  have h: "\<forall>sh \<in> set (slide_shapes mixed_slide). \<exists>st. shape_type sh = Inr st"
    by (simp add: mixed_slide_def icon_other_def icon_picture_def)
  note t = icons_bucket_is_for_untyped_shapes [of mixed_slide]
  from t h obtain d where d: "extract_slide_elements mixed_slide = Inr d" by blast
  have l: "lower ''Mail ICON'' = ''mail icon''" by code_simp
  have i1: "\<not> is_icon_shape icon_picture"
    by (simp add: is_icon_shape_def icon_picture_def)
  have "sublist ''icon'' ''mail icon''"
    unfolding sublist_def by (intro exI [of _ "''mail ''"] exI [of _ "[]"]) simp
  then have i2: "is_icon_shape icon_other"
    by (simp add: is_icon_shape_def icon_other_def l)
  from icons_bucket_is_for_untyped_shapes [of mixed_slide d] d
  have "icons d = map shape_name (filter is_icon_shape (slide_shapes mixed_slide))"
    "images d = map shape_name (filter (has_type PICTURE) (slide_shapes mixed_slide))"
    "tables d = map shape_name (filter (has_type TABLE) (slide_shapes mixed_slide))"
    by blast+
  then have "icons d = [''Mail ICON'']" "images d = [''Icon 1'']" "tables d = []"
    using i1 i2 by (simp_all add: mixed_slide_def icon_other_def icon_picture_def has_type_def)
  with d show ?thesis by blast
qed

lemma basename_no_sep: "CHR ''/'' \<notin> set (basename p)"
  by (auto simp: basename_def dest: set_takeWhileD)

lemma cache_path_eq: "cache_path blob_name = ''design_jsons/'' @ basename blob_name @ ''.json''"
proof -
  have "\<not> prefix ''/'' (basename blob_name @ ''.json'')"
    using basename_no_sep [of blob_name] by (cases "basename blob_name") auto
  then show ?thesis by (simp add: cache_path_def path_join_def OUTPUT_DIR_def)
qed

text \<open>
  C8: the cache file of a deck is \<open>design_jsons/\<close>, the deck's base name,
  \<open>.json\<close>. When it exists, \<open>process_blob\<close> returns the world as it found it: no
  download is started and every file, the cache file included, is what it was. When it
  does not exist a download is started. A second run on a deck whose cache file the
  first run left in place changes nothing.
\<close>

theorem cached_deck_is_skipped:
  "cache_path blob_name = ''design_jsons/'' @ basename blob_name @ ''.json'' \<and>
   (dx_files w (cache_path blob_name) = Some c \<longrightarrow>
      design_process_blob env w blob_name = w \<and>
      dx_downloads (design_process_blob env w blob_name) = dx_downloads w \<and>
      dx_files (design_process_blob env w blob_name) = dx_files w \<and>
      dx_files (design_process_blob env w blob_name) (cache_path blob_name) = Some c) \<and>
   (dx_files w (cache_path blob_name) = None \<longrightarrow>
      dx_downloads (design_process_blob env w blob_name) = dx_downloads w @ [blob_name]) \<and>
   (dx_files (design_process_blob env w blob_name) (cache_path blob_name) \<noteq> None \<longrightarrow>
      design_process_blob env (design_process_blob env w blob_name) blob_name
        = design_process_blob env w blob_name)"
proof -
  have a: "design_process_blob env v blob_name = v"
    if "dx_files v (cache_path blob_name) \<noteq> None" for v
    using that by (simp add: design_process_blob_def ppt_already_processed_def)
  have b: "dx_downloads (design_process_blob env w blob_name) = dx_downloads w @ [blob_name]"
    if "dx_files w (cache_path blob_name) = None"
    using that
    by (simp add: design_process_blob_def ppt_already_processed_def Let_def split: sum.splits)
  have c: "design_process_blob env w blob_name = w \<and>
      dx_downloads (design_process_blob env w blob_name) = dx_downloads w \<and>
      dx_files (design_process_blob env w blob_name) = dx_files w \<and>
      dx_files (design_process_blob env w blob_name) (cache_path blob_name) = Some c"
    if "dx_files w (cache_path blob_name) = Some c"
    using that a [of w] by simp
  from a [of "design_process_blob env w blob_name"] b c cache_path_eq show ?thesis by blast
qed

theorem cached_deck_is_skipped_witness:
  "dx_files cached_world (cache_path ''decks/q3.pptx'') = Some (RawBytes ''{}'') \<and>
   design_process_blob stub_dx_env cached_world ''decks/q3.pptx'' = cached_world \<and>
   dx_downloads (design_process_blob stub_dx_env cached_world ''decks/q3.pptx'') = [] \<and>
   dx_files cached_world (cache_path ''decks/q4.pptx'') = None \<and>
   dx_downloads (design_process_blob stub_dx_env cached_world ''decks/q4.pptx'')
     = [''decks/q4.pptx'']"
proof -
  have p3: "cache_path ''decks/q3.pptx'' = ''design_jsons/q3.pptx.json''"
    by (simp add: cache_path_eq basename_def)
  have p4: "cache_path ''decks/q4.pptx'' = ''design_jsons/q4.pptx.json''"
    by (simp add: cache_path_eq basename_def)
  have h3: "dx_files cached_world (cache_path ''decks/q3.pptx'') = Some (RawBytes ''{}'')"
    by (simp add: p3 cached_world_def)
  have h4: "dx_files cached_world (cache_path ''decks/q4.pptx'') = None"
    by (simp add: p4 cached_world_def)
  have d: "dx_downloads cached_world = []" by (simp add: cached_world_def)
  from cached_deck_is_skipped [of "''decks/q3.pptx''" cached_world "RawBytes ''{}''" stub_dx_env] h3
  have "design_process_blob stub_dx_env cached_world ''decks/q3.pptx'' = cached_world"
    "dx_downloads (design_process_blob stub_dx_env cached_world ''decks/q3.pptx'')
       = dx_downloads cached_world"
    by blast+
  moreover from cached_deck_is_skipped [of "''decks/q4.pptx''" cached_world _ stub_dx_env] h4
  have "dx_downloads (design_process_blob stub_dx_env cached_world ''decks/q4.pptx'')
     = dx_downloads cached_world @ [''decks/q4.pptx'']"
    by blast
  ultimately show ?thesis using h3 h4 d by simp
qed

section \<open>Properties of slide ingestion\<close>

lemma no_extract_design_json: "''extract_design_json'' \<notin> set design_extractor_names"
  by (simp add: design_extractor_names_def)

text \<open>
  C5: design_extractor.py binds \<open>extract_design_elements\<close> and no
  \<open>extract_design_json\<close>, so the ingestion module never loads; whenever the imports
  before line 9 succeed and the body of design_extractor.py runs, what is raised is the
  import error for \<open>extract_design_json\<close>.
\<close>

theorem ingestion_module_never_loads:
  "''extract_design_json'' \<notin> set design_extractor_names \<and>
   ''extract_design_elements'' \<in> set design_extractor_names \<and>
   (\<forall>u. load_ingestion_chroma env \<noteq> Inr u) \<and>
   (imports_before env = None \<and> design_extractor_body env = None \<longrightarrow>
      load_ingestion_chroma env = Inl (ImportError ''extract_design_json''))"
proof -
  have i: "import_from design_extractor_names ''extract_design_json''
             = Inl (ImportError ''extract_design_json'')"
    using no_extract_design_json by (simp add: import_from_def)
  have a: "\<forall>u. load_ingestion_chroma env \<noteq> Inr u"
    by (simp add: load_ingestion_chroma_def i split: option.splits)
  have b: "imports_before env = None \<and> design_extractor_body env = None \<longrightarrow>
      load_ingestion_chroma env = Inl (ImportError ''extract_design_json'')"
    by (simp add: load_ingestion_chroma_def i)
  have c: "''extract_design_elements'' \<in> set design_extractor_names"
    by (simp add: design_extractor_names_def)
  from no_extract_design_json a b c show ?thesis by blast
qed

theorem ingestion_module_never_loads_witness:
  "imports_before clean_load_env = None \<and> design_extractor_body clean_load_env = None \<and>
   load_ingestion_chroma clean_load_env = Inl (ImportError ''extract_design_json'')"
proof -
  have h: "imports_before clean_load_env = None \<and> design_extractor_body clean_load_env = None"
    by (simp add: clean_load_env_def)
  with ingestion_module_never_loads [of clean_load_env] show ?thesis by blast
qed

lemma ingestion_no_slides:
  assumes "ing_download_blob env blob_name = Inr bytes" "extract_slides env bytes = Inr []"
  shows "fst (ingestion_process_blob env w blob_name) = None \<and>
         collection (snd (ingestion_process_blob env w blob_name)) = collection w"
  using assms by (simp add: ingestion_process_blob_def Let_def)

lemma ingestion_no_vectors:
  assumes "ing_download_blob env blob_name = Inr bytes" "extract_slides env bytes = Inr slides"
    and "azure_embed_func env (map sl_text slides) = []"
  shows "fst (ingestion_process_blob env w blob_name) = None \<and>
         collection (snd (ingestion_process_blob env w blob_name)) = collection w"
  using assms by (simp add: ingestion_process_blob_def Let_def)

lemma ingestion_add:
  assumes "ing_download_blob env blob_name = Inr bytes" "extract_slides env bytes = Inr slides"
    and "slides \<noteq> []" "azure_embed_func env (map sl_text slides) \<noteq> []"
  shows "ingestion_process_blob env w blob_name =
     (let call = slide_entries env w blob_name slides (azure_embed_func env (map sl_text slides));
          w2 = w\<lparr> ing_files := (ing_files w)
                    (path_join (ing_gettempdir env) (flatten_name blob_name) \<mapsto> bytes),
                  ing_uuid_draws := ing_uuid_draws w + length slides \<rparr>
      in case add_error env call of
           Some e \<Rightarrow> (Some e, w2)
         | None \<Rightarrow> (None, w2\<lparr>collection := collection w @ [call]\<rparr>))"
  using assms
  by (simp add: ingestion_process_blob_def Let_def slide_entries_def split: option.splits)

lemma ingestion_collection_cases:
  "collection (snd (ingestion_process_blob env w blob_name)) = collection w \<or>
   (\<exists>slides vectors. slides \<noteq> [] \<and> vectors \<noteq> [] \<and>
      collection (snd (ingestion_process_blob env w blob_name))
        = collection w @ [slide_entries env w blob_name slides vectors])"
proof (cases "ing_download_blob env blob_name")
  case (Inl e)
  then show ?thesis by (simp add: ingestion_process_blob_def Let_def)
next
  case b: (Inr bytes)
  show ?thesis
  proof (cases "extract_slides env bytes")
    case (Inl e)
    with b show ?thesis by (simp add: ingestion_process_blob_def Let_def)
  next
    case s: (Inr slides)
    show ?thesis
    proof (cases "slides = [] \<or> azure_embed_func env (map sl_text slides) = []")
      case True
      with b s show ?thesis by (auto simp: ingestion_process_blob_def Let_def)
    next
      case False
      then have n: "slides \<noteq> []" "azure_embed_func env (map sl_text slides) \<noteq> []" by auto
      show ?thesis
      proof (cases "add_error env
          (slide_entries env w blob_name slides (azure_embed_func env (map sl_text slides)))")
        case None
        with n show ?thesis
          by (intro disjI2 exI [of _ slides]
                exI [of _ "azure_embed_func env (map sl_text slides)"])
             (simp add: ingestion_add [OF b s n] Let_def)
      next
        case (Some e)
        then show ?thesis by (simp add: ingestion_add [OF b s n] Let_def)
      qed
    qed
  qed
qed

lemma azure_embed_func_failure:
  "embeddings_create env texts = Inl e \<Longrightarrow> azure_embed_func env texts = []"
  by (simp add: azure_embed_func_def)

lemma slide_entries_lengths:
  "length (documents (slide_entries env w blob_name slides vectors)) = length slides \<and>
   length (metadatas (slide_entries env w blob_name slides vectors)) = length slides \<and>
   length (ids (slide_entries env w blob_name slides vectors)) = length slides \<and>
   embeddings (slide_entries env w blob_name slides vectors) = vectors"
  by (simp add: slide_entries_def)

lemma slide_entries_fresh_ids:
  "inj (uuid4_str env) \<Longrightarrow> distinct (ids (slide_entries env w blob_name slides vectors))"
  by (simp add: slide_entries_def distinct_map inj_on_def inj_def)

text \<open>
  C7: once the deck is downloaded and parsed, \<open>process_blob\<close> returns without an
  exception and leaves the collection as it was when the deck has no slides or the
  embedding step gives no vectors (which is what \<open>azure_embed_func\<close> makes of a
  failed call); otherwise, when \<open>collection.add\<close> accepts the call, the collection
  grows by that one call, which has one document, one metadata record and one id per
  slide and the vectors as returned (one per text when the service returns one per
  text); the ids are distinct when the draws of the random source are. In every case
  the collection is unchanged or has grown by exactly one such call.
\<close>

theorem ingestion_all_or_nothing:
  "(ing_download_blob env blob_name = Inr bytes \<and> extract_slides env bytes = Inr slides \<longrightarrow>
      (slides = [] \<or> azure_embed_func env (map sl_text slides) = [] \<longrightarrow>
         fst (ingestion_process_blob env w blob_name) = None \<and>
         collection (snd (ingestion_process_blob env w blob_name)) = collection w) \<and>
      (slides \<noteq> [] \<and> azure_embed_func env (map sl_text slides) \<noteq> [] \<and>
       add_error env (slide_entries env w blob_name slides
                        (azure_embed_func env (map sl_text slides))) = None \<longrightarrow>
         fst (ingestion_process_blob env w blob_name) = None \<and>
         collection (snd (ingestion_process_blob env w blob_name)) =
           collection w @ [slide_entries env w blob_name slides
                             (azure_embed_func env (map sl_text slides))])) \<and>
   (embeddings_create env texts = Inl e \<longrightarrow> azure_embed_func env texts = []) \<and>
   (collection (snd (ingestion_process_blob env w blob_name)) = collection w \<or>
    (\<exists>slides vectors. slides \<noteq> [] \<and> vectors \<noteq> [] \<and>
       collection (snd (ingestion_process_blob env w blob_name))
         = collection w @ [slide_entries env w blob_name slides vectors])) \<and>
   length (documents (slide_entries env w blob_name slides vectors)) = length slides \<and>
   length (metadatas (slide_entries env w blob_name slides vectors)) = length slides \<and>
   length (ids (slide_entries env w blob_name slides vectors)) = length slides \<and>
   embeddings (slide_entries env w blob_name slides vectors) = vectors \<and>
   (embeddings_create env texts = Inr vectors \<and> length vectors = length texts \<longrightarrow>
      length (azure_embed_func env texts) = length texts) \<and>
   (inj (uuid4_str env) \<longrightarrow>
      distinct (ids (slide_entries env w blob_name slides vectors)))"
proof -
  have a: "fst (ingestion_process_blob env w blob_name) = None \<and>
         collection (snd (ingestion_process_blob env w blob_name)) = collection w"
    if "ing_download_blob env blob_name = Inr bytes" "extract_slides env bytes = Inr slides"
      "slides = [] \<or> azure_embed_func env (map sl_text slides) = []"
    using that ingestion_no_slides [of env blob_name bytes w]
      ingestion_no_vectors [of env blob_name bytes slides w] by blast
  have b: "fst (ingestion_process_blob env w blob_name) = None \<and>
         collection (snd (ingestion_process_blob env w blob_name)) =
           collection w @ [slide_entries env w blob_name slides
                             (azure_embed_func env (map sl_text slides))]"
    if d: "ing_download_blob env blob_name = Inr bytes" and s: "extract_slides env bytes = Inr slides"
      and n: "slides \<noteq> []" "azure_embed_func env (map sl_text slides) \<noteq> []"
      and ok: "add_error env (slide_entries env w blob_name slides
                        (azure_embed_func env (map sl_text slides))) = None"
    using ok by (simp add: ingestion_add [OF d s n] Let_def)
  note c = azure_embed_func_failure [of env texts e]
  note d = ingestion_collection_cases [of env w blob_name]
  note l = slide_entries_lengths [of env w blob_name slides vectors]
  note f = slide_entries_fresh_ids [of env w blob_name slides vectors]
  have g: "embeddings_create env texts = Inr vectors \<and> length vectors = length texts \<longrightarrow>
      length (azure_embed_func env texts) = length texts"
    by (simp add: azure_embed_func_def)
  from a b c d l f g show ?thesis by blast
qed

theorem ingestion_all_or_nothing_witness:
  "inj (uuid4_str (stub_ing_env\<lparr>uuid4_str := (\<lambda>n. replicate n CHR ''a'')\<rparr>)) \<and>
   fst (ingestion_process_blob stub_ing_env empty_ing_world ''decks/q3.v2.pptx'') = None \<and>
   collection (snd (ingestion_process_blob stub_ing_env empty_ing_world ''decks/q3.v2.pptx'')) =
     [\<lparr> documents = [''Welcome'', ''Agenda\<newline>Items''],
        embeddings = [[1], [1]],
        metadatas =
          [\<lparr> meta_ppt_name = ''decks/q3.v2.pptx'', meta_slide_id = ''q3.v2_Slide_0'',
              meta_slide_index = 0, meta_title = ''Welcome'' \<rparr>,
           \<lparr> meta_ppt_name = ''decks/q3.v2.pptx'', meta_slide_id = ''q3.v2_Slide_1'',
              meta_slide_index = 1, meta_title = ''Agenda'' \<rparr>],
        ids = [''id-0'', ''id-1''] \<rparr>] \<and>
   azure_embed_func (stub_ing_env\<lparr>embeddings_create := (\<lambda>t. Inl (ExternalError ''quota''))\<rparr>)
     [''Welcome''] = [] \<and>
   distinct (ids (slide_entries (stub_ing_env\<lparr>uuid4_str := (\<lambda>n. replicate n CHR ''a'')\<rparr>)
     empty_ing_world ''decks/q3.v2.pptx'' [] []))"
proof -
  let ?slides = "[\<lparr>sl_index = 0, sl_text = ''Welcome''\<rparr>,
                  \<lparr>sl_index = 1, sl_text = ''Agenda\<newline>Items''\<rparr>]"
  have d: "ing_download_blob stub_ing_env ''decks/q3.v2.pptx'' = Inr ''PK''"
    by (simp add: stub_ing_env_def)
  have s: "extract_slides stub_ing_env ''PK'' = Inr ?slides"
    by code_simp
  have v: "azure_embed_func stub_ing_env (map sl_text ?slides) = [[1], [1]]"
    by (simp add: azure_embed_func_def stub_ing_env_def)
  have c: "slide_entries stub_ing_env empty_ing_world ''decks/q3.v2.pptx'' ?slides [[1], [1]] =
     \<lparr> documents = [''Welcome'', ''Agenda\<newline>Items''],
        embeddings = [[1], [1]],
        metadatas =
          [\<lparr> meta_ppt_name = ''decks/q3.v2.pptx'', meta_slide_id = ''q3.v2_Slide_0'',
              meta_slide_index = 0, meta_title = ''Welcome'' \<rparr>,
           \<lparr> meta_ppt_name = ''decks/q3.v2.pptx'', meta_slide_id = ''q3.v2_Slide_1'',
              meta_slide_index = 1, meta_title = ''Agenda'' \<rparr>],
        ids = [''id-0'', ''id-1''] \<rparr>"
    by code_simp
  have ok: "add_error stub_ing_env
      (slide_entries stub_ing_env empty_ing_world ''decks/q3.v2.pptx'' ?slides [[1], [1]]) = None"
    by (simp add: stub_ing_env_def)
  have w0: "collection empty_ing_world = []" by (simp add: empty_ing_world_def)
  have i: "inj (uuid4_str (stub_ing_env\<lparr>uuid4_str := (\<lambda>n. replicate n CHR ''a'')\<rparr>))"
  proof -
    have "inj (\<lambda>n::nat. replicate n CHR ''a'')"
      by (rule injI) (metis length_replicate)
    then show ?thesis by simp
  qed
  have e: "embeddings_create
      (stub_ing_env\<lparr>embeddings_create := (\<lambda>t. Inl (ExternalError ''quota''))\<rparr>) [''Welcome'']
        = Inl (ExternalError ''quota'')"
    by simp
  from ingestion_all_or_nothing
    [of stub_ing_env "''decks/q3.v2.pptx''" "''PK''" ?slides empty_ing_world] d s v ok
  have r: "fst (ingestion_process_blob stub_ing_env empty_ing_world ''decks/q3.v2.pptx'') = None"
    "collection (snd (ingestion_process_blob stub_ing_env empty_ing_world ''decks/q3.v2.pptx'')) =
       collection empty_ing_world @
         [slide_entries stub_ing_env empty_ing_world ''decks/q3.v2.pptx'' ?slides [[1], [1]]]"
    by simp_all
  from ingestion_all_or_nothing
    [of "stub_ing_env\<lparr>embeddings_create := (\<lambda>t. Inl (ExternalError ''quota''))\<rparr>"
        _ _ _ _ "[''Welcome'']" "ExternalError ''quota''"] e
  have f: "azure_embed_func
      (stub_ing_env\<lparr>embeddings_create := (\<lambda>t. Inl (ExternalError ''quota''))\<rparr>)
      [''Welcome''] = []"
    by blast
  from ingestion_all_or_nothing
    [of "stub_ing_env\<lparr>uuid4_str := (\<lambda>n. replicate n CHR ''a'')\<rparr>"
        "''decks/q3.v2.pptx''" _ "[]" empty_ing_world _ _ "[]"] i
  have u: "distinct (ids (slide_entries
      (stub_ing_env\<lparr>uuid4_str := (\<lambda>n. replicate n CHR ''a'')\<rparr>)
      empty_ing_world ''decks/q3.v2.pptx'' [] []))"
    by blast
  from r c w0 i f u show ?thesis by simp
qed

end
